theory Spec2Isabelle
  imports Complex_Main "HOL-Library.Log_Nat"
begin

section \<open>Python numbers\<close>

text \<open>
  The scoring code computes with Python \<open>int\<close> (unbounded, exact) and \<open>float\<close>
  (IEEE-754 binary64). An \<open>int\<close> is modelled by \<open>int\<close>. A finite \<open>float\<close> is modelled
  by the rational number it denotes, and every float operation rounds its exact result to
  the nearest binary64 value, ties to even (\<open>fl64\<close>). A decimal literal of the source such
  as \<open>0.15\<close> denotes \<open>fl64 (15 / 100)\<close>.

  \<open>fl64\<close> has an unbounded exponent: it agrees with binary64 whenever the result is a
  normal number, that is for magnitudes between \<open>2 powi (- 1022)\<close> and \<open>2 ^ 1024\<close>, and
  for zero. Prices, volumes, percentages and scores stay in that range. Overflow to
  infinity is modelled where the source converts an unbounded \<open>int\<close>
  (\<open>calculate_overall_risk\<close>).
\<close>

datatype pyerr = OverflowError | ValueError | ZeroDivisionError

definition round_half_even :: "rat \<Rightarrow> int" where
  "round_half_even x =
     (let n = \<lfloor>x\<rfloor>; r = x - of_int n
      in if r < 1 / 2 then n else if 1 / 2 < r then n + 1 else if even n then n else n + 1)"

text \<open>\<open>ilog2 x\<close> is the binary exponent of a positive \<open>x\<close>: \<open>2 powi ilog2 x \<le> x < 2 powi (ilog2 x + 1)\<close>.\<close>

definition ilog2 :: "rat \<Rightarrow> int" where
  "ilog2 x = (if 1 \<le> x then bitlen \<lfloor>x\<rfloor> - 1 else - bitlen (\<lceil>1 / x\<rceil> - 1))"

text \<open>Rounding to 53 significant bits, to nearest, ties to even.\<close>

definition fl64 :: "rat \<Rightarrow> rat" where
  "fl64 x = (if x = 0 then 0
             else let u = 2 powi (ilog2 \<bar>x\<bar> - 52)
                  in of_int (round_half_even (x / u)) * u)"

definition fadd :: "rat \<Rightarrow> rat \<Rightarrow> rat" where
  "fadd a b = fl64 (a + b)"

definition fsub :: "rat \<Rightarrow> rat \<Rightarrow> rat" where
  "fsub a b = fl64 (a - b)"

definition fmul :: "rat \<Rightarrow> rat \<Rightarrow> rat" where
  "fmul a b = fl64 (a * b)"

text \<open>Float division; every call site of the source guards the zero divisor itself.\<close>

definition fdiv :: "rat \<Rightarrow> rat \<Rightarrow> rat" where
  "fdiv a b = fl64 (a / b)"

text \<open>
  The builtin \<open>sum\<close> over floats, as the left-to-right addition starting from the integer
  \<open>0\<close> (CPython up to 3.11; later versions compensate the rounding errors, which can
  change the last bit of a sum of three or more non-integers).
\<close>

definition py_sum :: "rat list \<Rightarrow> rat" where
  "py_sum xs = foldl fadd 0 xs"

text \<open>\<open>int(x)\<close> of a finite float truncates toward zero.\<close>

definition py_trunc :: "rat \<Rightarrow> int" where
  "py_trunc x = (if 0 \<le> x then \<lfloor>x\<rfloor> else \<lceil>x\<rceil>)"

text \<open>Floats with the two infinities and not-a-number, for results that can overflow.\<close>

datatype xfloat = Finite rat | PInf | NInf | NaN

definition to_xfloat :: "rat \<Rightarrow> xfloat" where
  "to_xfloat r = (if 2 ^ 1024 \<le> r then PInf else if r \<le> - (2 ^ 1024) then NInf else Finite r)"

fun xadd :: "xfloat \<Rightarrow> xfloat \<Rightarrow> xfloat" where
  "xadd (Finite a) (Finite b) = to_xfloat (fl64 (a + b))"
| "xadd NaN _ = NaN"
| "xadd _ NaN = NaN"
| "xadd PInf NInf = NaN"
| "xadd NInf PInf = NaN"
| "xadd PInf _ = PInf"
| "xadd _ PInf = PInf"
| "xadd NInf _ = NInf"
| "xadd _ NInf = NInf"

text \<open>
  \<open>n * w\<close> for an \<open>int\<close> \<open>n\<close> and a finite float \<open>w\<close>: the integer is converted first, and
  the conversion raises OverflowError when the integer is too large for a float.
\<close>

definition int_times_float :: "int \<Rightarrow> rat \<Rightarrow> pyerr + xfloat" where
  "int_times_float n w =
     (let r = fl64 (of_int n)
      in if 2 ^ 1024 \<le> \<bar>r\<bar> then Inl OverflowError else Inr (to_xfloat (fl64 (r * w))))"

text \<open>\<open>int(x)\<close> raises on an infinity (OverflowError) and on not-a-number (ValueError).\<close>

fun py_int :: "xfloat \<Rightarrow> pyerr + int" where
  "py_int (Finite r) = Inr (py_trunc r)"
| "py_int PInf = Inl OverflowError"
| "py_int NInf = Inl OverflowError"
| "py_int NaN = Inl ValueError"

text \<open>
  Rounding errors. One rounding moves a non-negative number by a factor between
  \<open>unit_lo\<close> and \<open>unit_hi\<close> (\<open>fl64_rel\<close> below); \<open>rel_err j q q0\<close> says that \<open>q\<close> is
  \<open>q0\<close> up to \<open>j\<close> such factors.
\<close>

definition unit_lo :: rat where
  "unit_lo = 1 - 1 / 2 ^ 53"

definition unit_hi :: rat where
  "unit_hi = 1 + 1 / 2 ^ 53"

definition rel_err :: "nat \<Rightarrow> rat \<Rightarrow> rat \<Rightarrow> bool" where
  "rel_err j q q0 \<longleftrightarrow> q0 * unit_lo ^ j \<le> q \<and> q \<le> q0 * unit_hi ^ j"

section \<open>scripts/analyze\_contract.py\<close>

text \<open>
  Record fields keep the names of the dataclass fields; a field whose name also occurs in
  another dataclass carries a short prefix. \<open>Optional[str]\<close> is \<open>string option\<close>.
\<close>

record TokenMetadata =
  name :: string
  symbol :: string
  mint_authority :: "string option"
  freeze_authority :: "string option"
  tm_supply :: int
  decimals :: int
  is_initialized :: bool

record VolumeAnalysis =
  va_timeframe :: string
  total_volume :: rat
  avg_volume :: rat
  volume_spikes :: int
  suspicious_volume_pattern :: bool
  va_volume_trend :: string
  buy_sell_ratio :: rat
  liquidity_depth :: rat
  price_volatility :: rat

text \<open>\<open>timeframes\<close> is a dict keyed by the timeframe name; the code only iterates over it.\<close>

record ChartMetrics =
  current_price :: rat
  price_change_24h :: rat
  market_cap :: rat
  liquidity_usd :: rat
  fdv :: rat
  pairs_count :: int
  volume_24h :: rat
  top_pair_address :: "string option"
  dex_platform :: "string option"
  timeframes :: "(string \<times> VolumeAnalysis) list"

record RiskFactors =
  mint_authority_risk :: int
  freeze_authority_risk :: int
  liquidity_risk :: int
  holder_concentration_risk :: int
  contract_age_risk :: int
  verification_risk :: int
  scam_pattern_risk :: int
  volume_risk :: int
  volatility_risk :: int
  price_manipulation_risk :: int

text \<open>Truthiness of an \<open>Optional[str]\<close>: \<open>None\<close> and the empty string are false.\<close>

definition truthy_str :: "string option \<Rightarrow> bool" where
  "truthy_str s = (case s of None \<Rightarrow> False | Some t \<Rightarrow> t \<noteq> [])"

text \<open>\<open>d.get(key, 0)\<close> on a dict with numeric values.\<close>

definition get_or_zero :: "(string \<rightharpoonup> rat) \<Rightarrow> string \<Rightarrow> rat" where
  "get_or_zero d k = (case d k of None \<Rightarrow> 0 | Some v \<Rightarrow> v)"

text \<open>The loop adding 15 for every timeframe flagged with a suspicious volume pattern.\<close>

fun manipulation_loop :: "int \<Rightarrow> (string \<times> VolumeAnalysis) list \<Rightarrow> int" where
  "manipulation_loop acc [] = acc"
| "manipulation_loop acc ((tf_name, tf) # rest) =
     manipulation_loop (if suspicious_volume_pattern tf then acc + 15 else acc) rest"

definition calculate_risk_scores ::
  "TokenMetadata \<Rightarrow> (string \<rightharpoonup> rat) \<Rightarrow> (string \<rightharpoonup> rat) \<Rightarrow> string list \<Rightarrow> ChartMetrics
     \<Rightarrow> RiskFactors" where
  "calculate_risk_scores metadata holders age red_flags chart =
     (let mint_risk = (if truthy_str (mint_authority metadata) then 100 else 0);
          freeze_risk = (if truthy_str (freeze_authority metadata) then 80 else 0);
          liquidity_risk =
            (if liquidity_usd chart > 1000000 then 10
             else if liquidity_usd chart > 500000 then 20
             else if liquidity_usd chart > 100000 then 40
             else if liquidity_usd chart > 50000 then 60
             else if liquidity_usd chart > 10000 then 80
             else 100);
          concentration = get_or_zero holders ''top_10_concentration'';
          holder_risk =
            (if concentration > 90 then 100
             else if concentration > 70 then 80
             else if concentration > 50 then 60
             else if concentration > 30 then 40
             else 20);
          age_days = get_or_zero age ''age_days'';
          age_risk =
            (if age_days < 1 then 90
             else if age_days < 7 then 70
             else if age_days < 30 then 50
             else if age_days < 90 then 30
             else 10);
          verification_risk = (if \<not> is_initialized metadata then 50 else 0);
          scam_risk = min (int (length red_flags) * 10) 100;
          volume_risk =
            (if liquidity_usd chart > 0
             then (let vol_liq_ratio = fdiv (volume_24h chart) (liquidity_usd chart)
                   in if vol_liq_ratio > 10 then 80
                      else if vol_liq_ratio > 5 then 60
                      else if vol_liq_ratio < fl64 (1 / 10) then 70
                      else 30)
             else 50);
          volatility_risk =
            (if \<bar>price_change_24h chart\<bar> > 100 then 90
             else if \<bar>price_change_24h chart\<bar> > 50 then 70
             else if \<bar>price_change_24h chart\<bar> > 20 then 50
             else 30);
          manipulation_risk = min (manipulation_loop 0 (timeframes chart)) 100
      in \<lparr> mint_authority_risk = mint_risk,
           freeze_authority_risk = freeze_risk,
           liquidity_risk = liquidity_risk,
           holder_concentration_risk = holder_risk,
           contract_age_risk = age_risk,
           verification_risk = verification_risk,
           scam_pattern_risk = scam_risk,
           volume_risk = volume_risk,
           volatility_risk = volatility_risk,
           price_manipulation_risk = manipulation_risk \<rparr>)"

text \<open>
  The sum \<open>f1 * w1 + f2 * w2 + ...\<close> of \<open>calculate_overall_risk\<close>, evaluated left to
  right: each product converts its integer factor (and may raise), each addition may
  overflow to an infinity. The weights are the literals of the \<open>weights\<close> dict.
\<close>

fun add_terms :: "xfloat \<Rightarrow> (int \<times> rat) list \<Rightarrow> pyerr + xfloat" where
  "add_terms acc [] = Inr acc"
| "add_terms acc ((n, w) # ts) =
     (case int_times_float n w of
        Inl e \<Rightarrow> Inl e
      | Inr p \<Rightarrow> add_terms (xadd acc p) ts)"

definition weighted_score :: "RiskFactors \<Rightarrow> pyerr + xfloat" where
  "weighted_score factors =
     (case int_times_float (mint_authority_risk factors) (fl64 (15 / 100)) of
        Inl e \<Rightarrow> Inl e
      | Inr p \<Rightarrow>
          add_terms p
            [(freeze_authority_risk factors, fl64 (8 / 100)),
             (liquidity_risk factors, fl64 (15 / 100)),
             (holder_concentration_risk factors, fl64 (12 / 100)),
             (contract_age_risk factors, fl64 (8 / 100)),
             (verification_risk factors, fl64 (7 / 100)),
             (scam_pattern_risk factors, fl64 (12 / 100)),
             (volume_risk factors, fl64 (10 / 100)),
             (volatility_risk factors, fl64 (8 / 100)),
             (price_manipulation_risk factors, fl64 (5 / 100))])"

definition calculate_overall_risk :: "RiskFactors \<Rightarrow> pyerr + (int \<times> string)" where
  "calculate_overall_risk factors =
     (case weighted_score factors of
        Inl e \<Rightarrow> Inl e
      | Inr ws \<Rightarrow>
          (case py_int ws of
             Inl e \<Rightarrow> Inl e
           | Inr score \<Rightarrow>
               Inr (score,
                    if score \<le> 20 then ''LOW''
                    else if score \<le> 40 then ''MEDIUM''
                    else if score \<le> 60 then ''HIGH''
                    else ''EXTREME'')))"

text \<open>
  The float sum of \<open>weighted_score\<close> written with the plain float operations: the value
  that the code computes when no conversion and no addition overflows
  (\<open>weighted_score_ok\<close> below).
\<close>

definition float_of_int :: "int \<Rightarrow> rat" where
  "float_of_int n = fl64 (of_int n)"

definition float_weighted_sum :: "RiskFactors \<Rightarrow> rat" where
  "float_weighted_sum factors =
     foldl fadd (fmul (float_of_int (mint_authority_risk factors)) (fl64 (15 / 100)))
       [fmul (float_of_int (freeze_authority_risk factors)) (fl64 (8 / 100)),
        fmul (float_of_int (liquidity_risk factors)) (fl64 (15 / 100)),
        fmul (float_of_int (holder_concentration_risk factors)) (fl64 (12 / 100)),
        fmul (float_of_int (contract_age_risk factors)) (fl64 (8 / 100)),
        fmul (float_of_int (verification_risk factors)) (fl64 (7 / 100)),
        fmul (float_of_int (scam_pattern_risk factors)) (fl64 (12 / 100)),
        fmul (float_of_int (volume_risk factors)) (fl64 (10 / 100)),
        fmul (float_of_int (volatility_risk factors)) (fl64 (8 / 100)),
        fmul (float_of_int (price_manipulation_risk factors)) (fl64 (5 / 100))]"

text \<open>
  The specification's side: the weighted sum of the ten sub-scores as a number, with the
  decimal weights .15, .08, .15, .12, .08, .07, .12, .10, .08, .05, and the rating as the
  step function of the score.
\<close>

definition exact_weighted_sum :: "RiskFactors \<Rightarrow> rat" where
  "exact_weighted_sum factors =
     of_int (mint_authority_risk factors) * (15 / 100)
     + of_int (freeze_authority_risk factors) * (8 / 100)
     + of_int (liquidity_risk factors) * (15 / 100)
     + of_int (holder_concentration_risk factors) * (12 / 100)
     + of_int (contract_age_risk factors) * (8 / 100)
     + of_int (verification_risk factors) * (7 / 100)
     + of_int (scam_pattern_risk factors) * (12 / 100)
     + of_int (volume_risk factors) * (10 / 100)
     + of_int (volatility_risk factors) * (8 / 100)
     + of_int (price_manipulation_risk factors) * (5 / 100)"

definition sub_scores :: "RiskFactors \<Rightarrow> int list" where
  "sub_scores factors =
     [mint_authority_risk factors, freeze_authority_risk factors, liquidity_risk factors,
      holder_concentration_risk factors, contract_age_risk factors, verification_risk factors,
      scam_pattern_risk factors, volume_risk factors, volatility_risk factors,
      price_manipulation_risk factors]"

definition rating_of_score :: "int \<Rightarrow> string" where
  "rating_of_score s =
     (if s \<le> 20 then ''LOW''
      else if 21 \<le> s \<and> s \<le> 40 then ''MEDIUM''
      else if 41 \<le> s \<and> s \<le> 60 then ''HIGH''
      else ''EXTREME'')"

section \<open>scripts/scalp\_strategy.py\<close>

text \<open>
  The \<open>contract\<close> dict of \<open>calculate_entry_exit\<close>, restricted to the keys the function
  reads; \<open>None\<close> is an absent key.
\<close>

record ScalpContract =
  c_current_price :: "rat option"
  c_overall_risk_score :: "int option"
  c_price_change_24h :: "rat option"

text \<open>The returned dict; the empty dict \<open>{}\<close> of the early return is \<open>None\<close>.\<close>

record Levels =
  entry :: rat
  stop_loss :: rat
  tp1 :: rat
  tp2 :: rat
  tp3 :: rat

text \<open>The levels of a setup type before the adjustment for the risk score.\<close>

definition setup_levels :: "string \<Rightarrow> rat \<Rightarrow> Levels" where
  "setup_levels setup_type price =
     (if setup_type = ''pump_continuation'' then
        \<lparr> entry = price, stop_loss = fmul price (fl64 (95 / 100)),
          tp1 = fmul price (fl64 (102 / 100)), tp2 = fmul price (fl64 (105 / 100)),
          tp3 = fmul price (fl64 (110 / 100)) \<rparr>
      else if setup_type = ''dip_buy'' then
        \<lparr> entry = price, stop_loss = fmul price (fl64 (93 / 100)),
          tp1 = fmul price (fl64 (103 / 100)), tp2 = fmul price (fl64 (108 / 100)),
          tp3 = fmul price (fl64 (115 / 100)) \<rparr>
      else if setup_type = ''range_play'' then
        \<lparr> entry = price, stop_loss = fmul price (fl64 (97 / 100)),
          tp1 = fmul price (fl64 (1015 / 1000)), tp2 = fmul price (fl64 (103 / 100)),
          tp3 = fmul price (fl64 (105 / 100)) \<rparr>
      else if setup_type = ''momentum'' then
        \<lparr> entry = price, stop_loss = fmul price (fl64 (96 / 100)),
          tp1 = fmul price (fl64 (1025 / 1000)), tp2 = fmul price (fl64 (106 / 100)),
          tp3 = fmul price (fl64 (112 / 100)) \<rparr>
      else
        \<lparr> entry = price, stop_loss = fmul price (fl64 (96 / 100)),
          tp1 = fmul price (fl64 (102 / 100)), tp2 = fmul price (fl64 (105 / 100)),
          tp3 = fmul price (fl64 (110 / 100)) \<rparr>)"

definition calculate_entry_exit :: "ScalpContract \<Rightarrow> string \<Rightarrow> Levels option" where
  "calculate_entry_exit contract setup_type =
     (let price = (case c_current_price contract of None \<Rightarrow> 0 | Some p \<Rightarrow> p);
          risk_score = (case c_overall_risk_score contract of None \<Rightarrow> 50 | Some r \<Rightarrow> r)
      in if price \<le> 0 then None
         else let lv = setup_levels setup_type price
              in if risk_score \<le> 30 then Some lv
                 else if risk_score \<le> 40 then Some (lv \<lparr> tp3 := tp2 lv \<rparr>)
                 else let lv2 = lv \<lparr> tp2 := fmul (tp1 lv) (fl64 (102 / 100)) \<rparr>
                      in Some (lv2 \<lparr> tp3 := tp2 lv2 \<rparr>))"

definition position_size_by_risk :: "int \<Rightarrow> rat" where
  "position_size_by_risk risk_score =
     (if risk_score \<le> 30 then 3
      else if risk_score \<le> 35 then 5 / 2
      else if risk_score \<le> 40 then 2
      else 1)"

section \<open>scripts/smart\_money\_momentum\_agent.py\<close>

text \<open>
  A formatted string (an f-string with numbers in it) is modelled by its template and the
  numbers formatted into it: the rendered text is a function of the two. A character
  outside ASCII (the emoji that open the volume insights) is written as the bytes of its
  UTF-8 encoding.
\<close>

datatype message = Message string "rat list"

text \<open>\<open>d.get(key, 0)\<close> and the truthiness of a number that may be absent.\<close>

definition opt0 :: "rat option \<Rightarrow> rat" where
  "opt0 v = (case v of None \<Rightarrow> 0 | Some x \<Rightarrow> x)"

definition truthy_num :: "rat option \<Rightarrow> bool" where
  "truthy_num v = (case v of None \<Rightarrow> False | Some x \<Rightarrow> x \<noteq> 0)"

text \<open>
  One element of the list returned by \<open>fetch_token_holders\<close> (the keys \<open>address\<close>,
  \<open>balance\<close>, \<open>percent_held\<close>; the key \<open>uiAmount\<close> is never read).
\<close>

record RawHolder =
  address :: string
  raw_balance :: rat
  raw_percent_held :: rat

text \<open>
  \<open>HolderProfile\<close> with the fields that \<open>analyze_holders\<close> sets; the others keep the
  constant defaults of the dataclass.
\<close>

record HolderProfile =
  wallet_address :: string
  balance :: rat
  balance_usd :: rat
  percent_held :: rat
  is_smart_money :: bool
  is_whale :: bool
  tags :: "string list"

record HolderMetrics =
  total_holders :: int
  active_holders_24h :: int
  smart_money_count :: int
  whale_count :: int
  smart_money_holdings_percent :: rat
  concentration_risk :: string
  holder_growth_rate :: rat
  avg_holding_time :: rat
  smart_money_buying :: bool
  smart_money_selling :: bool
  smart_money_net_flow :: rat
  top_holders :: "HolderProfile list"
  smart_money_wallets :: "string list"

record VolumeMomentum =
  current_volume_24h :: rat
  avg_volume_7d :: rat
  volume_ratio :: rat
  volume_trend :: string
  volume_spikes_24h :: int
  buy_pressure :: rat
  sell_pressure :: rat
  net_pressure :: rat
  accumulation_score :: rat
  distribution_score :: rat
  unusual_activity :: bool
  volume_insights :: "message list"

record ChartPattern =
  pattern_type :: string
  pattern_confidence :: rat
  price_target :: "rat option"
  pattern_stop_loss :: "rat option"
  pattern_timeframe :: string
  description :: message
  supporting_indicators :: "string list"

record MomentumIndicators =
  rsi_14 :: rat
  rsi_trend :: string
  macd_signal :: string
  price_momentum_24h :: rat
  price_momentum_7d :: rat
  volatility_24h :: rat
  support_level :: "rat option"
  resistance_level :: "rat option"
  trend_direction :: string
  trend_strength :: rat

text \<open>
  One element of the DexScreener \<open>token-pairs\<close> response, restricted to the keys the
  agent reads; \<open>None\<close> is an absent key.
\<close>

record Pair =
  baseToken_symbol :: "string option"
  priceUsd :: "rat option"
  pair_liquidity_usd :: "rat option"
  volume_h6 :: "rat option"
  volume_h24 :: "rat option"
  priceChange_m5 :: "rat option"
  priceChange_h1 :: "rat option"
  priceChange_h6 :: "rat option"
  priceChange_h24 :: "rat option"
  priceChange_h7 :: "rat option"

subsection \<open>analyze\_holders\<close>

text \<open>
  The loop over \<open>raw_holders[:20]\<close>; its state is \<open>top_holders\<close>,
  \<open>smart_money_wallets\<close>, \<open>total_smart_money_holdings\<close> and \<open>whale_count\<close>.
\<close>

definition holder_profile :: "rat \<Rightarrow> RawHolder \<Rightarrow> HolderProfile" where
  "holder_profile price_usd holder =
     (let balance_usd = fmul (raw_balance holder) price_usd;
          is_whale = (raw_percent_held holder \<ge> 1);
          is_smart = (raw_percent_held holder \<ge> 1 / 2 \<and> balance_usd \<ge> 5000)
      in \<lparr> wallet_address = address holder,
           balance = raw_balance holder,
           balance_usd = balance_usd,
           percent_held = raw_percent_held holder,
           is_smart_money = is_smart,
           is_whale = is_whale,
           tags = (if is_whale then [''whale''] else []) \<rparr>)"

fun holders_loop ::
  "rat \<Rightarrow> HolderProfile list \<times> string list \<times> rat \<times> int \<Rightarrow> RawHolder list
     \<Rightarrow> HolderProfile list \<times> string list \<times> rat \<times> int" where
  "holders_loop price_usd st [] = st"
| "holders_loop price_usd (tops, wallets, holdings, whales) (holder # rest) =
     (let profile = holder_profile price_usd holder
      in holders_loop price_usd
           (tops @ [profile],
            if is_smart_money profile then wallets @ [address holder] else wallets,
            if is_smart_money profile then fadd holdings (raw_percent_held holder) else holdings,
            if is_whale profile then whales + 1 else whales)
           rest)"

definition analyze_holders :: "RawHolder list \<Rightarrow> rat \<Rightarrow> HolderMetrics" where
  "analyze_holders raw_holders price_usd =
     (if raw_holders = [] then
        \<lparr> total_holders = 0, active_holders_24h = 0, smart_money_count = 0, whale_count = 0,
          smart_money_holdings_percent = 0, concentration_risk = ''unknown'',
          holder_growth_rate = 0, avg_holding_time = 0, smart_money_buying = False,
          smart_money_selling = False, smart_money_net_flow = 0,
          top_holders = [], smart_money_wallets = [] \<rparr>
      else
        (case holders_loop price_usd ([], [], 0, 0) (take 20 raw_holders) of
           (tops, wallets, total_smart_money_holdings, whales) \<Rightarrow>
             (let top_10_pct = py_sum (map percent_held (take 10 tops));
                  risk = (if top_10_pct > 50 then ''high''
                          else if top_10_pct > 30 then ''medium''
                          else ''low'');
                  buying =
                    (length (filter (\<lambda>h. is_smart_money h \<and> balance_usd h > 10000) tops) > 2);
                  selling = False
              in \<lparr> total_holders = int (length raw_holders),
                   active_holders_24h = int (length raw_holders),
                   smart_money_count = int (length wallets),
                   whale_count = whales,
                   smart_money_holdings_percent = total_smart_money_holdings,
                   concentration_risk = risk,
                   holder_growth_rate = 0,
                   avg_holding_time = 0,
                   smart_money_buying = buying,
                   smart_money_selling = selling,
                   smart_money_net_flow = (if buying then 1 else if selling then - 1 else 0),
                   top_holders = tops,
                   smart_money_wallets = wallets \<rparr>)))"

subsection \<open>analyze\_volume\_momentum\<close>

text \<open>
  The loop over \<open>data[:5]\<close>; its state is \<open>total_volume_24h\<close>, \<open>total_liquidity\<close>,
  \<open>buy_volume\<close>, \<open>sell_volume\<close> and \<open>volume_history\<close>.
\<close>

fun volume_loop ::
  "rat \<times> rat \<times> rat \<times> rat \<times> rat list \<Rightarrow> Pair list \<Rightarrow> rat \<times> rat \<times> rat \<times> rat \<times> rat list" where
  "volume_loop st [] = st"
| "volume_loop (total_volume_24h, total_liquidity, buy_volume, sell_volume, volume_history)
       (pair # rest) =
     (let vol_24h = opt0 (volume_h24 pair);
          liquidity = opt0 (pair_liquidity_usd pair);
          price_change = opt0 (priceChange_h24 pair)
      in volume_loop
           (fadd total_volume_24h vol_24h,
            fadd total_liquidity liquidity,
            if price_change > 0 then fadd buy_volume (fmul vol_24h (fl64 (6 / 10)))
            else fadd buy_volume (fmul vol_24h (fl64 (4 / 10))),
            if price_change > 0 then fadd sell_volume (fmul vol_24h (fl64 (4 / 10)))
            else fadd sell_volume (fmul vol_24h (fl64 (6 / 10))),
            volume_history
              @ (if truthy_num (volume_h6 pair) then [opt0 (volume_h6 pair)] else [])
              @ (if truthy_num (volume_h24 pair) then [opt0 (volume_h24 pair)] else []))
           rest)"

definition analyze_volume_momentum :: "Pair list \<Rightarrow> VolumeMomentum" where
  "analyze_volume_momentum data =
     (if data = [] then
        \<lparr> current_volume_24h = 0, avg_volume_7d = 0, volume_ratio = 1,
          volume_trend = ''stable'', volume_spikes_24h = 0, buy_pressure = 50,
          sell_pressure = 50, net_pressure = 0, accumulation_score = 50,
          distribution_score = 50, unusual_activity = False, volume_insights = [] \<rparr>
      else
        (case volume_loop (0, 0, 0, 0, []) (take 5 data) of
           (total_volume_24h, total_liquidity, buy_volume, sell_volume, volume_history) \<Rightarrow>
             (let avg_volume =
                    (if volume_history \<noteq> []
                     then fdiv (py_sum volume_history) (of_nat (length volume_history))
                     else total_volume_24h);
                  volume_ratio = (if avg_volume > 0 then fdiv total_volume_24h avg_volume else 1);
                  volume_trend =
                    (if volume_ratio \<ge> 5 / 2 then ''spiking''
                     else if volume_ratio \<ge> 3 / 2 then ''increasing''
                     else if volume_ratio \<le> fl64 (7 / 10) then ''decreasing''
                     else ''stable'');
                  total_vol = fadd buy_volume sell_volume;
                  buy_pressure =
                    (if total_vol > 0 then fmul (fdiv buy_volume total_vol) 100 else 50);
                  sell_pressure =
                    (if total_vol > 0 then fmul (fdiv sell_volume total_vol) 100 else 50);
                  net_pressure = fsub buy_pressure sell_pressure;
                  rising = (volume_trend = ''increasing'' \<or> volume_trend = ''spiking'');
                  accumulation_score =
                    (if net_pressure > 20 \<and> rising then 80
                     else if net_pressure < - 20 \<and> rising then 20
                     else 50);
                  distribution_score =
                    (if net_pressure > 20 \<and> rising then 20
                     else if net_pressure < - 20 \<and> rising then 80
                     else 50);
                  insights =
                    (if volume_trend = ''spiking''
                     then [Message ([CHR 0xF0, CHR 0x9F, CHR 0x94, CHR 0xA5] @ '' Volume spike detected (%.1fx average)'')
                             [volume_ratio]]
                     else [])
                    @ (if net_pressure > 30
                       then [Message ([CHR 0xF0, CHR 0x9F, CHR 0x9F, CHR 0xA2] @ '' Strong buy pressure (%.0f%%)'')
                               [buy_pressure]]
                       else if net_pressure < - 30
                       then [Message ([CHR 0xF0, CHR 0x9F, CHR 0x94, CHR 0xB4] @ '' Strong sell pressure (%.0f%%)'')
                               [sell_pressure]]
                       else [])
                    @ (if accumulation_score > 70
                       then [Message ([CHR 0xF0, CHR 0x9F, CHR 0x93, CHR 0x88] @ '' Accumulation pattern detected'') []]
                       else if distribution_score > 70
                       then [Message ([CHR 0xF0, CHR 0x9F, CHR 0x93, CHR 0x89] @ '' Distribution pattern detected'') []]
                       else [])
              in \<lparr> current_volume_24h = total_volume_24h,
                   avg_volume_7d = avg_volume,
                   volume_ratio = volume_ratio,
                   volume_trend = volume_trend,
                   volume_spikes_24h = (if volume_trend = ''spiking'' then 1 else 0),
                   buy_pressure = buy_pressure,
                   sell_pressure = sell_pressure,
                   net_pressure = net_pressure,
                   accumulation_score = accumulation_score,
                   distribution_score = distribution_score,
                   unusual_activity = (volume_trend = ''spiking''),
                   volume_insights = insights \<rparr>)))"

subsection \<open>analyze\_momentum\_indicators\<close>

definition analyze_momentum_indicators :: "Pair list \<Rightarrow> rat \<Rightarrow> MomentumIndicators" where
  "analyze_momentum_indicators data price =
     (case data of
        [] \<Rightarrow>
          \<lparr> rsi_14 = 50, rsi_trend = ''neutral'', macd_signal = ''neutral'',
            price_momentum_24h = 0, price_momentum_7d = 0, volatility_24h = 0,
            support_level = None, resistance_level = None,
            trend_direction = ''sideways'', trend_strength = 0 \<rparr>
      | pair # _ \<Rightarrow>
          (let price_change_24h = opt0 (priceChange_h24 pair);
               price_change_7d = opt0 (priceChange_h7 pair);
               rsi0 =
                 (if price_change_24h > 10 then fadd 70 (min (fdiv price_change_24h 2) 25)
                  else if price_change_24h < - 10
                  then fsub 30 (min (fdiv \<bar>price_change_24h\<bar> 2) 25)
                  else fadd 50 price_change_24h);
               rsi_trend =
                 (if price_change_24h > 10
                  then (if rsi0 > 70 then ''overbought'' else ''neutral'')
                  else if price_change_24h < - 10
                  then (if rsi0 < 30 then ''oversold'' else ''neutral'')
                  else ''neutral'');
               rsi = max 0 (min 100 rsi0);
               up = (price_change_24h > 5 \<and>
                       (if price_change_7d \<noteq> 0 then price_change_7d > 0 else True));
               down = (price_change_24h < - 5 \<and>
                       (if price_change_7d \<noteq> 0 then price_change_7d < 0 else True));
               trend = (if up then ''up'' else if down then ''down'' else ''sideways'');
               strength =
                 (if up then min (fmul \<bar>price_change_24h\<bar> 3) 100
                  else if down then min (fmul \<bar>price_change_24h\<bar> 3) 100
                  else 20);
               macd = (if up then ''bullish'' else if down then ''bearish'' else ''neutral'');
               price_changes =
                 map opt0 (filter truthy_num
                   [priceChange_m5 pair, priceChange_h1 pair, priceChange_h6 pair,
                    priceChange_h24 pair]);
               volatility =
                 (if price_changes \<noteq> []
                  then fdiv (py_sum (map abs price_changes)) (of_nat (length price_changes))
                  else 0);
               support =
                 (if trend = ''up'' then fmul price (fl64 (9 / 10))
                  else fmul price (fl64 (95 / 100)));
               resistance =
                 (if trend = ''down'' then fmul price (fl64 (11 / 10))
                  else fmul price (fl64 (105 / 100)))
           in \<lparr> rsi_14 = rsi, rsi_trend = rsi_trend, macd_signal = macd,
                price_momentum_24h = price_change_24h, price_momentum_7d = price_change_7d,
                volatility_24h = volatility,
                support_level = Some support, resistance_level = Some resistance,
                trend_direction = trend, trend_strength = strength \<rparr>))"

subsection \<open>detect\_chart\_patterns\<close>

text \<open>The five rules are independent; each one that fires appends its pattern.\<close>

definition detect_chart_patterns ::
  "MomentumIndicators \<Rightarrow> VolumeMomentum \<Rightarrow> rat \<Rightarrow> ChartPattern list" where
  "detect_chart_patterns momentum volume price =
     (if trend_direction momentum = ''up'' \<and> volume_trend volume = ''spiking'' \<and>
         price_momentum_24h momentum > 10
      then [\<lparr> pattern_type = ''breakout'',
               pattern_confidence = min (fadd (trend_strength momentum) 10) 95,
               price_target = Some (fmul price (fl64 (12 / 10))),
               pattern_stop_loss = Some (fmul price (fl64 (92 / 100))),
               pattern_timeframe = ''1h-4h'',
               description =
                 Message ''Strong breakout with %.1fx volume spike'' [volume_ratio volume],
               supporting_indicators = [''Volume spike'', ''Momentum up'', ''RSI momentum''] \<rparr>]
      else [])
     @ (if accumulation_score volume > 70 \<and> rsi_trend momentum = ''oversold''
        then [\<lparr> pattern_type = ''accumulation'',
                 pattern_confidence = 75,
                 price_target = Some (fmul price (fl64 (115 / 100))),
                 pattern_stop_loss = Some (fmul price (fl64 (88 / 100))),
                 pattern_timeframe = ''4h-24h'',
                 description = Message ''Accumulation phase with oversold RSI'' [],
                 supporting_indicators = [''Buy pressure'', ''Oversold RSI'', ''Volume building''] \<rparr>]
        else [])
     @ (if trend_direction momentum = ''sideways'' \<and> volume_trend volume = ''decreasing''
        then [\<lparr> pattern_type = ''consolidation'',
                 pattern_confidence = 60,
                 price_target = Some (fmul price (fl64 (11 / 10))),
                 pattern_stop_loss = Some (fmul price (fl64 (9 / 10))),
                 pattern_timeframe = ''1h-6h'',
                 description = Message ''Price consolidating, awaiting breakout'' [],
                 supporting_indicators = [''Low volatility'', ''Volume contraction''] \<rparr>]
        else [])
     @ (if distribution_score volume > 70 \<and> rsi_trend momentum = ''overbought''
        then [\<lparr> pattern_type = ''distribution'',
                 pattern_confidence = 70,
                 price_target = Some (fmul price (fl64 (85 / 100))),
                 pattern_stop_loss = Some (fmul price (fl64 (105 / 100))),
                 pattern_timeframe = ''1h-4h'',
                 description = Message ''Distribution pattern with overbought RSI'' [],
                 supporting_indicators = [''Sell pressure'', ''Overbought RSI''] \<rparr>]
        else [])
     @ (if trend_direction momentum = ''down'' \<and> volume_trend volume = ''spiking''
        then [\<lparr> pattern_type = ''breakdown'',
                 pattern_confidence = min (fadd (trend_strength momentum) 10) 90,
                 price_target = Some (fmul price (fl64 (8 / 10))),
                 pattern_stop_loss = Some (fmul price (fl64 (108 / 100))),
                 pattern_timeframe = ''1h-4h'',
                 description = Message ''Breakdown with volume confirmation'' [],
                 supporting_indicators = [''Volume spike'', ''Down momentum''] \<rparr>]
        else [])"

subsection \<open>The momentum score and the signal\<close>

text \<open>
  In \<open>calculate_momentum_score\<close> the score is an integer until the net pressure is
  added, and a float from there on.
\<close>

definition calculate_momentum_score :: "VolumeMomentum \<Rightarrow> MomentumIndicators \<Rightarrow> rat" where
  "calculate_momentum_score volume indicators =
     (let s0 = (50 :: rat);
          s1 = (if volume_trend volume = ''spiking'' then s0 + 20
                else if volume_trend volume = ''increasing'' then s0 + 10
                else if volume_trend volume = ''decreasing'' then s0 - 10
                else s0);
          s2 = fadd s1 (fdiv (net_pressure volume) 5);
          s3 = (if price_momentum_24h indicators > 20 then fadd s2 15
                else if price_momentum_24h indicators > 10 then fadd s2 10
                else if price_momentum_24h indicators < - 10 then fsub s2 10
                else if price_momentum_24h indicators < - 20 then fsub s2 15
                else s2);
          s4 = (if rsi_trend indicators = ''oversold'' then fadd s3 10
                else if rsi_trend indicators = ''overbought'' then fsub s3 10
                else s3);
          s5 = (if trend_direction indicators = ''up'' then fadd s4 10
                else if trend_direction indicators = ''down'' then fsub s4 10
                else s4)
      in max 0 (min 100 s5))"

text \<open>\<open>generate_signal\<close> returns the signal, the confidence and the combined score.\<close>

definition generate_signal ::
  "rat \<Rightarrow> rat \<Rightarrow> rat \<Rightarrow> ChartPattern list \<Rightarrow> string \<times> rat \<times> rat" where
  "generate_signal sm_score mom_score pat_score patterns =
     (let combined =
            fadd (fadd (fmul sm_score (fl64 (35 / 100))) (fmul mom_score (fl64 (40 / 100))))
                 (fmul pat_score (fl64 (25 / 100)));
          signal =
            (if combined \<ge> 75 then ''strong_buy''
             else if combined \<ge> 60 then ''buy''
             else if combined \<ge> 45 then ''hold''
             else if combined \<ge> 30 then ''sell''
             else ''strong_sell'');
          variance =
            fsub (max sm_score (max mom_score pat_score)) (min sm_score (min mom_score pat_score));
          conf = (if variance < 20 then 85 else if variance < 40 then 70 else 55)
      in (signal, conf, combined))"

section \<open>scripts/chart\_analyzer.py\<close>

record Candle =
  candle_timestamp :: int
  candle_open :: rat
  candle_high :: rat
  candle_low :: rat
  candle_close :: rat
  candle_volume :: rat

text \<open>
  The loop of \<open>calculate_rsi\<close> over consecutive closes: a rise is a gain and a zero loss,
  anything else a zero gain and the size of the fall as loss.
\<close>

fun gains_losses :: "rat list \<Rightarrow> rat list \<times> rat list" where
  "gains_losses (a # b # rest) =
     (case gains_losses (b # rest) of
        (gains, losses) \<Rightarrow>
          (let change = fsub b a
           in if change > 0 then (change # gains, 0 # losses)
              else (0 # gains, \<bar>change\<bar> # losses)))"
| "gains_losses [a] = ([], [])"
| "gains_losses [] = ([], [])"

text \<open>
  The slice \<open>xs[-period:]\<close>: the last \<open>period\<close> elements for a positive \<open>period\<close> (all of
  them when there are fewer), the whole list for 0, and \<open>xs[k:]\<close> for \<open>period = - k\<close>.
\<close>

definition slice_from_neg :: "'a list \<Rightarrow> int \<Rightarrow> 'a list" where
  "slice_from_neg xs period =
     (if period > 0 then drop (length xs - nat period) xs else drop (nat (- period)) xs)"

text \<open>\<open>sum(xs[-period:]) / period\<close>, which raises ZeroDivisionError for \<open>period = 0\<close>.\<close>

definition trailing_average :: "rat list \<Rightarrow> int \<Rightarrow> pyerr + rat" where
  "trailing_average xs period =
     (if period = 0 then Inl ZeroDivisionError
      else Inr (fdiv (py_sum (slice_from_neg xs period)) (float_of_int period)))"

definition calculate_rsi :: "Candle list \<Rightarrow> int \<Rightarrow> pyerr + rat option" where
  "calculate_rsi candles period =
     (if int (length candles) < period + 1 then Inr None
      else
        (case gains_losses (map candle_close candles) of
           (gains, losses) \<Rightarrow>
             if int (length gains) < period then Inr None
             else
               (case trailing_average gains period of
                  Inl e \<Rightarrow> Inl e
                | Inr avg_gain \<Rightarrow>
                    (case trailing_average losses period of
                       Inl e \<Rightarrow> Inl e
                     | Inr avg_loss \<Rightarrow>
                         if avg_loss = 0 then Inr (Some 100)
                         else
                           (let rs = fdiv avg_gain avg_loss
                            in if fadd 1 rs = 0 then Inl ZeroDivisionError
                               else Inr (Some (fsub 100 (fdiv 100 (fadd 1 rs)))))))))"

section \<open>Example inputs\<close>

text \<open>The first example scenario of the specification, as sub-scores.\<close>

definition example_factors :: RiskFactors where
  "example_factors =
     \<lparr> mint_authority_risk = 0, freeze_authority_risk = 0, liquidity_risk = 10,
       holder_concentration_risk = 20, contract_age_risk = 10, verification_risk = 0,
       scam_pattern_risk = 0, volume_risk = 30, volatility_risk = 30,
       price_manipulation_risk = 0 \<rparr>"

text \<open>Sub-scores of a young token with nine red flags and two flagged timeframes.\<close>

definition nine_flags_factors :: RiskFactors where
  "nine_flags_factors =
     \<lparr> mint_authority_risk = 0, freeze_authority_risk = 0, liquidity_risk = 10,
       holder_concentration_risk = 20, contract_age_risk = 30, verification_risk = 0,
       scam_pattern_risk = 90, volume_risk = 30, volatility_risk = 30,
       price_manipulation_risk = 30 \<rparr>"

text \<open>
  A snapshot of a token launched half a day ago: no mint or freeze authority, an
  initialised mint, 60000 USD of liquidity with 20 times that traded in a day, a flat
  price, 60 percent held by the top ten holders, six red flags, no timeframe data.
\<close>

definition launched_metadata :: TokenMetadata where
  "launched_metadata =
     \<lparr> name = ''Token'', symbol = ''TOK'', mint_authority = None,
       freeze_authority = None, tm_supply = 1000000000, decimals = 6, is_initialized = True \<rparr>"

definition launched_chart :: ChartMetrics where
  "launched_chart =
     \<lparr> current_price = 1, price_change_24h = 0, market_cap = 0, liquidity_usd = 60000, fdv = 0,
       pairs_count = 1, volume_24h = 1200000, top_pair_address = None, dex_platform = None,
       timeframes = [] \<rparr>"

definition launched_factors :: RiskFactors where
  "launched_factors =
     calculate_risk_scores launched_metadata [''top_10_concentration'' \<mapsto> 60]
       [''age_days'' \<mapsto> 1 / 2] [''a'', ''b'', ''c'', ''d'', ''e'', ''f''] launched_chart"

text \<open>The \<open>ChartMetrics\<close> that \<open>get_dexscreener_data\<close> returns when there is no market data.\<close>

definition no_market_chart :: ChartMetrics where
  "no_market_chart =
     \<lparr> current_price = 0, price_change_24h = 0, market_cap = 0, liquidity_usd = 0, fdv = 0,
       pairs_count = 0, volume_24h = 0, top_pair_address = None, dex_platform = None,
       timeframes = [] \<rparr>"

text \<open>A market with 20 times its liquidity traded in a day and a 150 percent move.\<close>

definition wash_chart :: ChartMetrics where
  "wash_chart =
     \<lparr> current_price = 1, price_change_24h = 150, market_cap = 0, liquidity_usd = 1000, fdv = 0,
       pairs_count = 1, volume_24h = 20000, top_pair_address = None, dex_platform = None,
       timeframes = [] \<rparr>"

text \<open>The metadata that \<open>get_token_metadata\<close> returns when the account cannot be read.\<close>

definition example_metadata :: TokenMetadata where
  "example_metadata =
     \<lparr> name = ''Unknown'', symbol = ''UNKNOWN'', mint_authority = None,
       freeze_authority = None, tm_supply = 0, decimals = 0, is_initialized = False \<rparr>"

definition risky_contract :: ScalpContract where
  "risky_contract =
     \<lparr> c_current_price = Some 1, c_overall_risk_score = Some 45, c_price_change_24h = Some (- 25) \<rparr>"

text \<open>
  The \<open>VolumeMomentum\<close> returned when there are no pairs, and the indicators of a token
  that fell 25 percent in 24 hours (oversold, trending down).
\<close>

definition flat_volume :: VolumeMomentum where
  "flat_volume =
     \<lparr> current_volume_24h = 0, avg_volume_7d = 0, volume_ratio = 1,
       volume_trend = ''stable'', volume_spikes_24h = 0, buy_pressure = 50,
       sell_pressure = 50, net_pressure = 0, accumulation_score = 50,
       distribution_score = 50, unusual_activity = False, volume_insights = [] \<rparr>"

definition falling_indicators :: MomentumIndicators where
  "falling_indicators =
     \<lparr> rsi_14 = 35 / 2, rsi_trend = ''oversold'', macd_signal = ''bearish'',
       price_momentum_24h = - 25, price_momentum_7d = 0, volatility_24h = 25,
       support_level = Some (fl64 (95 / 100)), resistance_level = Some (fl64 (11 / 10)),
       trend_direction = ''down'', trend_strength = 75 \<rparr>"

text \<open>Four holders of a token priced at 2 USD.\<close>

definition example_holders :: "RawHolder list" where
  "example_holders =
     [\<lparr> address = ''A'', raw_balance = 10000, raw_percent_held = 2 \<rparr>,
      \<lparr> address = ''B'', raw_balance = 6000, raw_percent_held = 1 \<rparr>,
      \<lparr> address = ''C'', raw_balance = 5500, raw_percent_held = 6 / 10 \<rparr>,
      \<lparr> address = ''D'', raw_balance = 100, raw_percent_held = 4 / 10 \<rparr>]"

text \<open>Three candles with closes 1, 2, 3.\<close>

definition candle_at :: "rat \<Rightarrow> Candle" where
  "candle_at c =
     \<lparr> candle_timestamp = 0, candle_open = c, candle_high = c, candle_low = c,
       candle_close = c, candle_volume = 0 \<rparr>"

definition rising_candles :: "Candle list" where
  "rising_candles = [candle_at 1, candle_at 2, candle_at 3]"

text \<open>
  Pairs of the DexScreener response: a pair that rose 5 percent with a given 24h volume, a
  pair without volume that fell 15 percent, and a market of three pairs.
\<close>

definition up_pair :: "rat \<Rightarrow> Pair" where
  "up_pair v =
     \<lparr> baseToken_symbol = Some ''TOK'', priceUsd = Some 1, pair_liquidity_usd = Some 50000,
       volume_h6 = None, volume_h24 = Some v, priceChange_m5 = None, priceChange_h1 = None,
       priceChange_h6 = None, priceChange_h24 = Some 5, priceChange_h7 = None \<rparr>"

definition idle_falling_pair :: Pair where
  "idle_falling_pair =
     \<lparr> baseToken_symbol = Some ''TOK'', priceUsd = Some 1, pair_liquidity_usd = Some 50000,
       volume_h6 = None, volume_h24 = None, priceChange_m5 = None, priceChange_h1 = None,
       priceChange_h6 = None, priceChange_h24 = Some (- 15), priceChange_h7 = None \<rparr>"

definition thin_market :: "Pair list" where
  "thin_market = [idle_falling_pair, up_pair 1, up_pair 30]"

section \<open>Properties of the rounding\<close>

lemma round_half_even_of_int: "round_half_even (of_int n) = n"
  by (simp add: round_half_even_def)

lemma round_half_even_bounds:
  "\<lfloor>x\<rfloor> \<le> round_half_even x" "round_half_even x \<le> \<lfloor>x\<rfloor> + 1"
  by (simp_all add: round_half_even_def Let_def)

lemma round_half_even_mono:
  assumes "x \<le> y"
  shows "round_half_even x \<le> round_half_even y"
proof (cases "\<lfloor>x\<rfloor> = \<lfloor>y\<rfloor>")
  case True
  have "x - of_int \<lfloor>y\<rfloor> \<le> y - of_int \<lfloor>y\<rfloor>" using assms by simp
  then show ?thesis using True
    by (auto simp add: round_half_even_def Let_def)
next
  case False
  have "\<lfloor>x\<rfloor> \<le> \<lfloor>y\<rfloor>" using assms by (rule floor_mono)
  with False have "\<lfloor>x\<rfloor> + 1 \<le> \<lfloor>y\<rfloor>" by simp
  with round_half_even_bounds(2)[of x] round_half_even_bounds(1)[of y]
  show ?thesis by linarith
qed

lemma round_half_even_minus: "round_half_even (- x) = - round_half_even x"
proof (cases "x = of_int \<lfloor>x\<rfloor>")
  case True
  then obtain n where "x = of_int n" ..
  then have "- x = of_int (- n)" by simp
  then show ?thesis using \<open>x = of_int n\<close>
    by (simp only: round_half_even_of_int)
next
  case False
  have fx: "of_int \<lfloor>x\<rfloor> < x" using False by (metis le_less of_int_floor_le)
  have "\<lfloor>- x\<rfloor> = - \<lfloor>x\<rfloor> - 1"
    by (rule floor_unique) (use fx in linarith)+
  then show ?thesis using fx
    by (auto simp add: round_half_even_def Let_def)
qed

lemma ilog2_ge1:
  assumes "1 \<le> x"
  shows "2 powi ilog2 x \<le> x" and "x < 2 powi (ilog2 x + 1)"
proof -
  let ?n = "\<lfloor>x\<rfloor>"
  let ?b = "bitlen ?n"
  have n: "0 < ?n" using assms by simp
  from bitlen_bounds[OF n] have lo: "2 ^ nat (?b - 1) \<le> ?n" and hi: "?n < 2 ^ nat ?b" by auto
  have b1: "1 \<le> ?b" using n by (simp add: bitlen_alt_def)
  have e: "ilog2 x = ?b - 1" using assms by (simp add: ilog2_def)
  have "(2::rat) powi (?b - 1) = 2 ^ nat (?b - 1)" using b1 by (simp add: power_int_def)
  also have "\<dots> = of_int (2 ^ nat (?b - 1))" by simp
  also have "\<dots> \<le> of_int ?n" using lo by (simp only: of_int_le_iff)
  also have "\<dots> \<le> x" by simp
  finally show "2 powi ilog2 x \<le> x" using e by simp
  have "?n + 1 \<le> 2 ^ nat ?b" using hi by simp
  hence "(of_int (?n + 1) :: rat) \<le> of_int (2 ^ nat ?b)" by (simp only: of_int_le_iff)
  moreover have "x < of_int (?n + 1)" by linarith
  ultimately have "x < of_int (2 ^ nat ?b)" by linarith
  also have "\<dots> = 2 powi ?b" using b1 by (simp add: power_int_def)
  finally show "x < 2 powi (ilog2 x + 1)" using e by simp
qed

lemma ilog2_lt1:
  assumes "0 < x" "x < 1"
  shows "2 powi ilog2 x \<le> x" and "x < 2 powi (ilog2 x + 1)"
proof -
  let ?y = "1 / x"
  let ?c = "\<lceil>?y\<rceil>"
  let ?b = "bitlen (?c - 1)"
  have y1: "1 < ?y" using assms by simp
  have c2: "2 \<le> ?c" using y1 by linarith
  have c1: "0 < ?c - 1" using c2 by simp
  from bitlen_bounds[OF c1] have lo: "2 ^ nat (?b - 1) \<le> ?c - 1" and hi: "?c - 1 < 2 ^ nat ?b" by auto
  have b1: "1 \<le> ?b" using c1 by (simp add: bitlen_alt_def)
  have e: "ilog2 x = - ?b" using assms by (simp add: ilog2_def)
  have "?c \<le> 2 ^ nat ?b" using hi by simp
  hence "(of_int ?c :: rat) \<le> of_int (2 ^ nat ?b)" by (simp only: of_int_le_iff)
  moreover have "?y \<le> of_int ?c" by simp
  moreover have "(of_int (2 ^ nat ?b) :: rat) = 2 ^ nat ?b" by simp
  ultimately have "?y \<le> 2 ^ nat ?b" by linarith
  hence "1 \<le> x * 2 ^ nat ?b" using assms by (simp add: field_simps)
  hence "1 / 2 ^ nat ?b \<le> x" by (simp add: field_simps)
  moreover have "(2::rat) powi (- ?b) = 1 / 2 ^ nat ?b"
    using b1 by (simp add: power_int_def field_simps)
  ultimately show "2 powi ilog2 x \<le> x" using e by simp
  have "(of_int (2 ^ nat (?b - 1)) :: rat) \<le> of_int (?c - 1)" using lo by (simp only: of_int_le_iff)
  moreover have "of_int (?c - 1) < ?y" by linarith
  moreover have "(of_int (2 ^ nat (?b - 1)) :: rat) = 2 ^ nat (?b - 1)" by simp
  ultimately have "2 ^ nat (?b - 1) < ?y" by linarith
  hence "x * 2 ^ nat (?b - 1) < 1" using assms by (simp add: field_simps)
  hence "x < 1 / 2 ^ nat (?b - 1)" by (simp add: field_simps)
  moreover have "(2::rat) powi (- ?b + 1) = 1 / 2 ^ nat (?b - 1)"
  proof (cases "?b = 1")
    case True
    then show ?thesis by simp
  next
    case False
    then have "- ?b + 1 < 0" using b1 by simp
    then show ?thesis by (simp add: power_int_def field_simps nat_diff_distrib)
  qed
  ultimately show "x < 2 powi (ilog2 x + 1)" using e by simp
qed

lemma ilog2_bounds:
  assumes "0 < x"
  shows "2 powi ilog2 x \<le> x" and "x < 2 powi (ilog2 x + 1)"
  using assms ilog2_ge1[of x] ilog2_lt1[of x] by (cases "1 \<le> x"; simp)+

lemma ilog2_mono:
  assumes "0 < x" "x \<le> y"
  shows "ilog2 x \<le> ilog2 y"
proof (rule ccontr)
  assume "\<not> ilog2 x \<le> ilog2 y"
  then have "ilog2 y + 1 \<le> ilog2 x" by simp
  then have "(2::rat) powi (ilog2 y + 1) \<le> 2 powi ilog2 x"
    by (intro power_int_increasing) simp_all
  moreover have "y < 2 powi (ilog2 y + 1)" using assms by (intro ilog2_bounds) simp
  moreover have "2 powi ilog2 x \<le> x" using assms by (intro ilog2_bounds)
  ultimately show False using assms by linarith
qed


lemma fl64_zero: "fl64 0 = 0"
  by (simp add: fl64_def)

lemma fl64_minus: "fl64 (- x) = - fl64 x"
  by (simp add: fl64_def Let_def round_half_even_minus)

lemma two_powi_split: "(2::rat) powi e = 2 ^ 52 * 2 powi (e - 52)"
proof -
  have "(2::rat) powi e = 2 powi (52 + (e - 52))" by simp
  also have "\<dots> = 2 powi 52 * 2 powi (e - 52)" by (subst power_int_add) simp_all
  finally show ?thesis by simp
qed

lemma two_powi_split53: "(2::rat) powi (e + 1) = 2 ^ 53 * 2 powi (e - 52)"
proof -
  have "e + 1 = 53 + (e - 52)" by simp
  hence "(2::rat) powi (e + 1) = 2 powi (53 + (e - 52))" by (rule arg_cong)
  also have "\<dots> = 2 powi 53 * 2 powi (e - 52)" by (subst power_int_add) simp_all
  finally show ?thesis by simp
qed

lemma fl64_pos_bounds:
  assumes "0 < x"
  shows "2 powi ilog2 x \<le> fl64 x" and "fl64 x \<le> 2 powi (ilog2 x + 1)"
proof -
  let ?e = "ilog2 x"
  let ?u = "(2::rat) powi (?e - 52)"
  have u: "0 < ?u" by simp
  have fl: "fl64 x = of_int (round_half_even (x / ?u)) * ?u"
    using assms by (simp add: fl64_def Let_def)
  have lo: "2 ^ 52 * ?u \<le> x" using ilog2_bounds(1)[OF assms] two_powi_split[of ?e] by simp
  have hi: "x \<le> 2 ^ 53 * ?u" using ilog2_bounds(2)[OF assms] two_powi_split53[of ?e] by simp
  have "of_int (2 ^ 52) \<le> x / ?u" using lo u by (simp add: field_simps)
  from round_half_even_mono[OF this]
  have "2 ^ 52 \<le> round_half_even (x / ?u)" by (simp only: round_half_even_of_int)
  hence "(of_int (2 ^ 52) :: rat) \<le> of_int (round_half_even (x / ?u))" by (simp only: of_int_le_iff)
  hence "2 ^ 52 * ?u \<le> of_int (round_half_even (x / ?u)) * ?u" using u by simp
  thus "2 powi ilog2 x \<le> fl64 x" using fl two_powi_split[of ?e] by simp
  have "x / ?u \<le> of_int (2 ^ 53)" using hi u by (simp add: field_simps)
  from round_half_even_mono[OF this]
  have "round_half_even (x / ?u) \<le> 2 ^ 53" by (simp only: round_half_even_of_int)
  hence "(of_int (round_half_even (x / ?u)) :: rat) \<le> of_int (2 ^ 53)" by (simp only: of_int_le_iff)
  hence "of_int (round_half_even (x / ?u)) * ?u \<le> 2 ^ 53 * ?u" using u by simp
  thus "fl64 x \<le> 2 powi (ilog2 x + 1)" using fl two_powi_split53[of ?e] by simp
qed

lemma fl64_pos:
  assumes "0 < x"
  shows "0 < fl64 x"
proof -
  have "0 < (2::rat) powi ilog2 x" by simp
  with fl64_pos_bounds(1)[OF assms] show ?thesis by linarith
qed

lemma fl64_mono_pos:
  assumes "0 < x" "x \<le> y"
  shows "fl64 x \<le> fl64 y"
proof (cases "ilog2 x = ilog2 y")
  case True
  let ?u = "(2::rat) powi (ilog2 y - 52)"
  have u: "0 < ?u" by simp
  have "x / ?u \<le> y / ?u" using assms u by (simp add: divide_right_mono)
  from round_half_even_mono[OF this]
  have "(of_int (round_half_even (x / ?u)) :: rat) \<le> of_int (round_half_even (y / ?u))"
    by (simp only: of_int_le_iff)
  hence "of_int (round_half_even (x / ?u)) * ?u \<le> of_int (round_half_even (y / ?u)) * ?u"
    using u by simp
  then show ?thesis using assms True by (simp add: fl64_def Let_def)
next
  case False
  have y: "0 < y" using assms by simp
  have "ilog2 x \<le> ilog2 y" using assms by (rule ilog2_mono)
  with False have "ilog2 x + 1 \<le> ilog2 y" by simp
  then have "(2::rat) powi (ilog2 x + 1) \<le> 2 powi ilog2 y"
    by (intro power_int_increasing) simp_all
  with fl64_pos_bounds(2)[OF assms(1)] fl64_pos_bounds(1)[OF y] show ?thesis by linarith
qed

lemma fl64_mono:
  assumes "x \<le> y"
  shows "fl64 x \<le> fl64 y"
proof -
  consider "0 < x" | "x \<le> 0" "0 \<le> y" | "y < 0" by linarith
  then show ?thesis
  proof cases
    case 1
    then show ?thesis using assms by (rule fl64_mono_pos)
  next
    case 2
    have "fl64 x \<le> 0"
    proof (cases "x = 0")
      case True then show ?thesis by (simp add: fl64_zero)
    next
      case False
      then have "0 < - x" using 2 by simp
      from fl64_pos[OF this] show ?thesis by (simp add: fl64_minus)
    qed
    moreover have "0 \<le> fl64 y"
    proof (cases "y = 0")
      case True then show ?thesis by (simp add: fl64_zero)
    next
      case False
      then have "0 < y" using 2 by simp
      from fl64_pos[OF this] show ?thesis by simp
    qed
    ultimately show ?thesis by simp
  next
    case 3
    then have "0 < - y" "- y \<le> - x" using assms by simp_all
    from fl64_mono_pos[OF this] show ?thesis by (simp add: fl64_minus)
  qed
qed

lemma fl64_eq_0_iff: "fl64 x = 0 \<longleftrightarrow> x = 0"
proof
  assume z: "fl64 x = 0"
  show "x = 0"
  proof (rule ccontr)
    assume "x \<noteq> 0"
    then consider "0 < x" | "0 < - x" by linarith
    then show False
    proof cases
      case 1 from fl64_pos[OF this] z show False by simp
    next
      case 2 from fl64_pos[OF this] z show False by (simp add: fl64_minus)
    qed
  qed
qed (simp add: fl64_zero)

lemma fl64_representable_pos:
  assumes m: "0 < m" "m < 2 ^ 53"
  shows "fl64 (of_int m * 2 powi k) = of_int m * 2 powi k"
proof -
  let ?x = "of_int m * (2::rat) powi k"
  let ?e = "ilog2 ?x"
  have x: "0 < ?x" using m by simp
  have "(of_int m :: rat) < of_int (2 ^ 53)" using m by (simp only: of_int_less_iff)
  hence "?x < 2 ^ 53 * 2 powi k" by simp
  also have "\<dots> = 2 powi (k + 53)" by (subst power_int_add) simp_all
  finally have lt: "2 powi ?e < (2::rat) powi (k + 53)" using ilog2_bounds(1)[OF x] by linarith
  have "?e < k + 53"
  proof (rule ccontr)
    assume "\<not> ?e < k + 53"
    then have "k + 53 \<le> ?e" by simp
    then have "(2::rat) powi (k + 53) \<le> 2 powi ?e"
      by (intro power_int_increasing) simp_all
    with lt show False by simp
  qed
  then obtain j where j: "k - (?e - 52) = int j" using nonneg_int_cases[of "k - (?e - 52)"] by auto
  have "?x / 2 powi (?e - 52) = of_int m * 2 powi (k - (?e - 52))"
    by (simp add: power_int_diff)
  also have "\<dots> = of_int (m * 2 ^ j)" using j by simp
  finally have q: "?x / 2 powi (?e - 52) = of_int (m * 2 ^ j)" .
  have "?x \<noteq> 0" using m by simp
  hence "fl64 ?x = of_int (round_half_even (?x / 2 powi (?e - 52))) * 2 powi (?e - 52)"
    unfolding fl64_def Let_def using x by (simp only: if_False abs_of_pos)
  also have "\<dots> = of_int (m * 2 ^ j) * 2 powi (?e - 52)"
    by (simp only: q round_half_even_of_int)
  also have "\<dots> = ?x / 2 powi (?e - 52) * 2 powi (?e - 52)" by (simp only: q)
  also have "\<dots> = ?x" by simp
  finally show ?thesis .
qed

lemma fl64_of_int:
  assumes "\<bar>n\<bar> < 2 ^ 53"
  shows "fl64 (of_int n) = of_int n"
proof -
  consider "n = 0" | "0 < n" | "0 < - n" by linarith
  then show ?thesis
  proof cases
    case 1 then show ?thesis by (simp add: fl64_zero)
  next
    case 2
    with assms have "n < 2 ^ 53" by simp
    from fl64_representable_pos[OF 2 this, of 0] show ?thesis by simp
  next
    case 3
    with assms have "- n < 2 ^ 53" by simp
    from fl64_representable_pos[OF 3 this, of 0] show ?thesis by (simp add: fl64_minus)
  qed
qed

lemma fl64_20: "fl64 20 = 20" using fl64_of_int[of 20] by simp
lemma fl64_40: "fl64 40 = 40" using fl64_of_int[of 40] by simp

lemma fsub_ge:
  assumes "of_int k \<le> a - b" "\<bar>k\<bar> < 2 ^ 53"
  shows "of_int k \<le> fsub a b"
  using fl64_mono[OF assms(1)] fl64_of_int[OF assms(2)] by (simp add: fsub_def)

lemma fl64_small_ints:
  "fl64 0 = 0" "fl64 30 = 30" "fl64 35 = 35" "fl64 40 = 40" "fl64 50 = 50"
  using fl64_of_int[of 0] fl64_of_int[of 30] fl64_of_int[of 35] fl64_of_int[of 40] fl64_of_int[of 50]
  by simp_all

section \<open>Rounding errors\<close>

text \<open>
  A rounding is off by at most half a unit in the last place, that is by at most the
  fraction \<open>1 / 2 ^ 53\<close> of the number.
\<close>

lemma round_half_even_error: "\<bar>of_int (round_half_even y) - y\<bar> \<le> 1 / 2"
proof -
  have "of_int \<lfloor>y\<rfloor> \<le> y" "y < of_int \<lfloor>y\<rfloor> + 1" by linarith+
  then show ?thesis
    by (auto simp add: round_half_even_def Let_def abs_le_iff)
qed

lemma fl64_error_pos:
  assumes "0 < x"
  shows "\<bar>fl64 x - x\<bar> \<le> x / 2 ^ 53"
proof -
  let ?e = "ilog2 x"
  let ?u = "(2::rat) powi (?e - 52)"
  have u: "0 < ?u" by simp
  have fl: "fl64 x = of_int (round_half_even (x / ?u)) * ?u"
    using assms by (simp add: fl64_def Let_def)
  have lo: "2 ^ 52 * ?u \<le> x" using ilog2_bounds(1)[OF assms] two_powi_split[of ?e] by simp
  have "fl64 x - x = (of_int (round_half_even (x / ?u)) - x / ?u) * ?u"
    unfolding fl using u by (simp add: left_diff_distrib)
  then have "\<bar>fl64 x - x\<bar> = \<bar>of_int (round_half_even (x / ?u)) - x / ?u\<bar> * ?u"
    using u by (simp add: abs_mult)
  also have "\<dots> \<le> 1 / 2 * ?u"
    using round_half_even_error[of "x / ?u"] u by (intro mult_right_mono) simp_all
  also have "\<dots> \<le> x / 2 ^ 53" using lo by simp
  finally show ?thesis .
qed

lemma fl64_error: "\<bar>fl64 x - x\<bar> \<le> \<bar>x\<bar> / 2 ^ 53"
proof -
  consider "x = 0" | "0 < x" | "0 < - x" by linarith
  then show ?thesis
  proof cases
    case 1 then show ?thesis by (simp add: fl64_zero)
  next
    case 2 from fl64_error_pos[OF this] 2 show ?thesis by simp
  next
    case 3
    from fl64_error_pos[OF this] have "\<bar>- fl64 x + x\<bar> \<le> - x / 2 ^ 53" by (simp add: fl64_minus)
    moreover have "\<bar>- fl64 x + x\<bar> = \<bar>fl64 x - x\<bar>" by (simp add: abs_minus_commute)
    ultimately show ?thesis using 3 by simp
  qed
qed

lemma fl64_error_le:
  assumes "\<bar>x\<bar> \<le> m"
  shows "\<bar>fl64 x - x\<bar> \<le> m / 2 ^ 53"
proof -
  have "\<bar>x\<bar> / 2 ^ 53 \<le> m / 2 ^ 53" using assms by (simp add: divide_right_mono)
  with fl64_error[of x] show ?thesis by linarith
qed

lemma fl64_nonneg: "0 \<le> x \<Longrightarrow> 0 \<le> fl64 x"
  using fl64_mono[of 0 x] by (simp add: fl64_zero)

lemma unit_facts:
  "0 < unit_lo" "unit_lo \<le> 1" "1 \<le> unit_hi" "0 < unit_hi"
  "1 \<le> unit_lo * unit_hi ^ 2"
  "unit_lo ^ 2 * unit_hi \<le> 1"
  by (simp_all add: unit_lo_def unit_hi_def power2_eq_square)

lemma fl64_rel:
  assumes "0 \<le> x"
  shows "x * unit_lo \<le> fl64 x" and "fl64 x \<le> x * unit_hi"
proof -
  have "\<bar>fl64 x - x\<bar> \<le> x / 2 ^ 53" using fl64_error[of x] assms by simp
  then have "x - x / 2 ^ 53 \<le> fl64 x" "fl64 x \<le> x + x / 2 ^ 53" by linarith+
  then show "x * unit_lo \<le> fl64 x" and "fl64 x \<le> x * unit_hi"
    by (simp_all add: unit_lo_def unit_hi_def algebra_simps)
qed

lemma rel_err_refl: "rel_err 0 q q"
  by (simp add: rel_err_def)

lemma rel_err_zero: "rel_err j 0 0"
  by (simp add: rel_err_def)

lemma rel_err_zeroD: "rel_err j q 0 \<Longrightarrow> q = 0"
  by (simp add: rel_err_def)

lemma rel_err_nonneg:
  assumes "0 \<le> q0" "rel_err j q q0"
  shows "0 \<le> q"
proof -
  have "0 \<le> q0 * unit_lo ^ j"
    using assms(1) unit_facts(1) by (intro mult_nonneg_nonneg zero_le_power) simp_all
  with assms(2) show ?thesis unfolding rel_err_def by linarith
qed

lemma rel_err_pos:
  assumes "0 < q0" "rel_err j q q0"
  shows "0 < q"
proof -
  have "0 < q0 * unit_lo ^ j"
    using assms(1) unit_facts(1) by (intro mult_pos_pos zero_less_power)
  with assms(2) show ?thesis unfolding rel_err_def by linarith
qed

lemma rel_err_mono:
  assumes "0 \<le> q0" "i \<le> j" "rel_err i q q0"
  shows "rel_err j q q0"
proof -
  have "unit_lo ^ j \<le> unit_lo ^ i"
    using assms(2) unit_facts(1,2) by (intro power_decreasing) simp_all
  then have lo: "q0 * unit_lo ^ j \<le> q0 * unit_lo ^ i"
    using assms(1) by (rule mult_left_mono)
  have "unit_hi ^ i \<le> unit_hi ^ j"
    using assms(2) unit_facts(3) by (intro power_increasing)
  then have hi: "q0 * unit_hi ^ i \<le> q0 * unit_hi ^ j"
    using assms(1) by (rule mult_left_mono)
  show ?thesis using assms(3) lo hi unfolding rel_err_def by linarith
qed

lemma rel_err_fl64:
  assumes "0 \<le> q0" "rel_err j q q0"
  shows "rel_err (Suc j) (fl64 q) q0"
proof -
  have q: "0 \<le> q" using assms by (rule rel_err_nonneg)
  note r = fl64_rel[OF q]
  have "q0 * unit_lo ^ j * unit_lo \<le> q * unit_lo"
    using assms(2) unit_facts(1) unfolding rel_err_def by (intro mult_right_mono) simp_all
  with r(1) have "q0 * unit_lo ^ j * unit_lo \<le> fl64 q" by linarith
  then have lo: "q0 * unit_lo ^ Suc j \<le> fl64 q" by (simp add: ac_simps)
  have "q * unit_hi \<le> q0 * unit_hi ^ j * unit_hi"
    using assms(2) unit_facts(4) unfolding rel_err_def by (intro mult_right_mono) simp_all
  with r(2) have "fl64 q \<le> q0 * unit_hi ^ j * unit_hi" by linarith
  then have hi: "fl64 q \<le> q0 * unit_hi ^ Suc j" by (simp add: ac_simps)
  show ?thesis unfolding rel_err_def using lo hi by simp
qed

lemma rel_err_add:
  assumes "rel_err j a a0" "rel_err j b b0"
  shows "rel_err j (a + b) (a0 + b0)"
  using assms unfolding rel_err_def by (simp add: distrib_right add_mono)

lemma rel_err_mult:
  assumes "0 \<le> v" "rel_err j c c0"
  shows "rel_err j (v * c) (v * c0)"
proof -
  have "v * (c0 * unit_lo ^ j) \<le> v * c" "v * c \<le> v * (c0 * unit_hi ^ j)"
    using assms unfolding rel_err_def by (simp_all add: mult_left_mono)
  then show ?thesis unfolding rel_err_def by (simp add: mult.assoc)
qed

lemma rel_err_divide:
  assumes "0 \<le> a0" "0 < b0" "rel_err i a a0" "rel_err j b b0"
  shows "rel_err (i + 2 * j) (a / b) (a0 / b0)"
proof -
  note lo0 = unit_facts(1) and hi0 = unit_facts(4)
  have a: "a0 * unit_lo ^ i \<le> a" "a \<le> a0 * unit_hi ^ i" using assms(3) by (simp_all add: rel_err_def)
  have b: "b0 * unit_lo ^ j \<le> b" "b \<le> b0 * unit_hi ^ j" using assms(4) by (simp_all add: rel_err_def)
  have bl: "0 < b0 * unit_lo ^ j" using assms(2) lo0 by (intro mult_pos_pos zero_less_power)
  have bpos: "0 < b" using assms(2,4) by (rule rel_err_pos)
  have a0l: "0 \<le> a0 * unit_lo ^ i"
    using assms(1) lo0 by (intro mult_nonneg_nonneg zero_le_power) simp_all
  have apos: "0 \<le> a" using assms(1,3) by (rule rel_err_nonneg)
  have q0: "0 \<le> a0 / b0" using assms(1,2) by simp
  have "1 \<le> (unit_lo * unit_hi ^ 2) ^ j" using unit_facts(5) by (rule one_le_power)
  then have k1: "1 \<le> unit_lo ^ j * unit_hi ^ (2 * j)" by (simp add: power_mult_distrib power_mult)
  have "a / b \<le> (a0 * unit_hi ^ i) / (b0 * unit_lo ^ j)"
    by (rule frac_le) (use apos a(2) bl b(1) in linarith)+
  also have "\<dots> = (a0 / b0) * unit_hi ^ i * (1 / unit_lo ^ j)" by simp
  also have "\<dots> \<le> (a0 / b0) * unit_hi ^ i * unit_hi ^ (2 * j)"
  proof (rule mult_left_mono)
    have "0 < unit_lo ^ j" using lo0 by (rule zero_less_power)
    then show "1 / unit_lo ^ j \<le> unit_hi ^ (2 * j)" using k1 by (simp add: field_simps)
    show "0 \<le> a0 / b0 * unit_hi ^ i"
      using q0 hi0 by (intro mult_nonneg_nonneg zero_le_power) simp_all
  qed
  also have "\<dots> = (a0 / b0) * unit_hi ^ (i + 2 * j)" by (simp add: power_add mult.assoc)
  finally have up: "a / b \<le> (a0 / b0) * unit_hi ^ (i + 2 * j)" .
  have "(unit_lo ^ 2 * unit_hi) ^ j \<le> 1" using unit_facts(6) lo0 hi0 by (intro power_le_one) simp_all
  then have k2: "unit_lo ^ (2 * j) * unit_hi ^ j \<le> 1" by (simp add: power_mult_distrib power_mult)
  have "(a0 / b0) * unit_lo ^ (i + 2 * j) = (a0 / b0) * unit_lo ^ i * unit_lo ^ (2 * j)"
    by (simp add: power_add mult.assoc)
  also have "\<dots> \<le> (a0 / b0) * unit_lo ^ i * (1 / unit_hi ^ j)"
  proof (rule mult_left_mono)
    have "0 < unit_hi ^ j" using hi0 by (rule zero_less_power)
    then show "unit_lo ^ (2 * j) \<le> 1 / unit_hi ^ j" using k2 by (simp add: field_simps)
    show "0 \<le> a0 / b0 * unit_lo ^ i"
      using q0 lo0 by (intro mult_nonneg_nonneg zero_le_power) simp_all
  qed
  also have "\<dots> = (a0 * unit_lo ^ i) / (b0 * unit_hi ^ j)" by simp
  also have "\<dots> \<le> a / b" by (rule frac_le) (use apos a(1) bpos b(2) in linarith)+
  finally have low: "(a0 / b0) * unit_lo ^ (i + 2 * j) \<le> a / b" .
  show ?thesis unfolding rel_err_def using low up by simp
qed

text \<open>Twenty-five roundings of a percentage.\<close>

lemma unit_pow_25:
  "1 - 1 / (240 * 10 ^ 12) \<le> unit_lo ^ 25" "unit_hi ^ 25 \<le> 1 + 1 / (240 * 10 ^ 12)"
  by (simp_all add: unit_lo_def unit_hi_def power_divide)

lemma rel_err_25_abs:
  assumes "rel_err 25 q q0" "0 \<le> q0" "q0 \<le> 60"
  shows "\<bar>q - q0\<bar> \<le> 1 / (4 * 10 ^ 12)"
proof -
  have "q0 * (1 - 1 / (240 * 10 ^ 12)) \<le> q0 * unit_lo ^ 25"
    using assms(2) unit_pow_25(1) by (rule mult_left_mono[rotated])
  then have lo: "q0 - q0 / (240 * 10 ^ 12) \<le> q" using assms(1) by (simp add: rel_err_def algebra_simps)
  have "q0 * unit_hi ^ 25 \<le> q0 * (1 + 1 / (240 * 10 ^ 12))"
    using assms(2) unit_pow_25(2) by (rule mult_left_mono[rotated])
  then have hi: "q \<le> q0 + q0 / (240 * 10 ^ 12)" using assms(1) by (simp add: rel_err_def algebra_simps)
  have "q0 / (240 * 10 ^ 12) \<le> 60 / (240 * 10 ^ 12)" using assms(3) by (simp add: divide_right_mono)
  then have "q0 / (240 * 10 ^ 12) \<le> 1 / (4 * 10 ^ 12)" by simp
  with lo hi show ?thesis by linarith
qed


section \<open>The weighted risk score does not overflow on bounded sub-scores\<close>

lemma fl64_pow2: "fl64 (2 ^ k) = 2 ^ k"
  using fl64_representable_pos[of 1 "int k"] by simp

lemma fl64_abs_le:
  assumes "\<bar>x\<bar> \<le> 2 ^ k"
  shows "\<bar>fl64 x\<bar> \<le> 2 ^ k"
proof -
  have "x \<le> 2 ^ k" "- (2 ^ k) \<le> x" using assms by simp_all
  from fl64_mono[OF this(1)] fl64_mono[OF this(2)]
  show ?thesis by (simp add: fl64_pow2 fl64_minus abs_le_iff)
qed

lemma to_xfloat_Finite: "\<bar>r\<bar> < 2 ^ 1024 \<Longrightarrow> to_xfloat r = Finite r"
  by (simp add: to_xfloat_def abs_less_iff)

lemma pow_1000_1024: "(2::rat) ^ (1000 + j) < 2 ^ 1024" if "j \<le> 23"
  using that by (intro power_strict_increasing) simp_all

lemma int_times_float_ok:
  assumes "\<bar>n\<bar> \<le> 2 ^ 1000" "\<bar>w\<bar> \<le> 1"
  shows "int_times_float n w = Inr (Finite (fmul (float_of_int n) w))"
    and "\<bar>fmul (float_of_int n) w\<bar> \<le> 2 ^ 1000"
proof -
  let ?r = "fl64 (of_int n)"
  have "\<bar>of_int n :: rat\<bar> \<le> of_int (2 ^ 1000)" using assms(1)
    by (simp only: of_int_abs[symmetric] of_int_le_iff)
  hence "\<bar>of_int n :: rat\<bar> \<le> 2 ^ 1000" by simp
  hence r: "\<bar>?r\<bar> \<le> 2 ^ 1000" by (rule fl64_abs_le)
  have r': "\<bar>?r\<bar> < 2 ^ 1024" using r pow_1000_1024[of 0] by simp
  have "\<bar>?r * w\<bar> \<le> 2 ^ 1000 * 1" unfolding abs_mult using r assms(2)
    by (intro mult_mono) simp_all
  hence "\<bar>?r * w\<bar> \<le> 2 ^ 1000" by simp
  hence p: "\<bar>fl64 (?r * w)\<bar> \<le> 2 ^ 1000" by (rule fl64_abs_le)
  thus "\<bar>fmul (float_of_int n) w\<bar> \<le> 2 ^ 1000" by (simp add: fmul_def float_of_int_def)
  have "\<bar>fl64 (?r * w)\<bar> < 2 ^ 1024" using p pow_1000_1024[of 0] by simp
  hence "to_xfloat (fl64 (?r * w)) = Finite (fl64 (?r * w))" by (rule to_xfloat_Finite)
  thus "int_times_float n w = Inr (Finite (fmul (float_of_int n) w))"
    using r' by (simp add: int_times_float_def Let_def fmul_def float_of_int_def)
qed

lemma add_terms_ok:
  assumes "\<bar>acc\<bar> \<le> 2 ^ (1000 + j)"
    and "list_all (\<lambda>(n, w). \<bar>n\<bar> \<le> 2 ^ 1000 \<and> \<bar>w\<bar> \<le> 1) ts"
    and "j + length ts \<le> 23"
  shows "add_terms (Finite acc) ts =
           Inr (Finite (foldl fadd acc (map (\<lambda>(n, w). fmul (float_of_int n) w) ts)))"
  using assms
proof (induction ts arbitrary: acc j)
  case Nil
  then show ?case by simp
next
  case (Cons t ts)
  obtain n w where t: "t = (n, w)" by (cases t)
  let ?p = "fmul (float_of_int n) w"
  have nw: "\<bar>n\<bar> \<le> 2 ^ 1000" "\<bar>w\<bar> \<le> 1" using Cons.prems(2) t by simp_all
  note itf = int_times_float_ok[OF nw]
  have "(2::rat) ^ 1000 \<le> 2 ^ (1000 + j)" by (intro power_increasing) simp_all
  with itf(2) have "\<bar>?p\<bar> \<le> 2 ^ (1000 + j)" by linarith
  with Cons.prems(1) have "\<bar>acc + ?p\<bar> \<le> 2 ^ (1000 + j) + 2 ^ (1000 + j)" by linarith
  moreover have "(2::rat) ^ (1000 + Suc j) = 2 ^ (1000 + j) + 2 ^ (1000 + j)"
    by (simp only: add_Suc_right power_Suc mult_2)
  ultimately have "\<bar>acc + ?p\<bar> \<le> 2 ^ (1000 + Suc j)" by (simp only:)
  hence b: "\<bar>fl64 (acc + ?p)\<bar> \<le> 2 ^ (1000 + Suc j)" by (rule fl64_abs_le)
  have "Suc j \<le> 23" using Cons.prems(3) by simp
  from pow_1000_1024[OF this] b have "\<bar>fl64 (acc + ?p)\<bar> < 2 ^ 1024" by linarith
  hence x: "xadd (Finite acc) (Finite ?p) = Finite (fadd acc ?p)"
    by (simp add: to_xfloat_Finite fadd_def)
  have "add_terms (Finite (fadd acc ?p)) ts =
          Inr (Finite (foldl fadd (fadd acc ?p) (map (\<lambda>(n, w). fmul (float_of_int n) w) ts)))"
    using b Cons.prems by (intro Cons.IH[of _ "Suc j"]) (simp_all add: fadd_def)
  then show ?case using t itf(1) x by simp
qed

lemma weight_le_1: "0 \<le> q \<Longrightarrow> q \<le> 1 \<Longrightarrow> \<bar>fl64 q\<bar> \<le> 1"
  using fl64_abs_le[of q 0] by simp

lemma weighted_score_ok:
  assumes "list_all (\<lambda>n. \<bar>n\<bar> \<le> 2 ^ 1000) (sub_scores factors)"
  shows "weighted_score factors = Inr (Finite (float_weighted_sum factors))"
proof -
  have b: "\<bar>mint_authority_risk factors\<bar> \<le> 2 ^ 1000" using assms by (simp add: sub_scores_def)
  have w: "\<bar>fl64 (15 / 100)\<bar> \<le> 1" by (rule weight_le_1) simp_all
  note itf = int_times_float_ok[OF b w]
  have "\<bar>fmul (float_of_int (mint_authority_risk factors)) (fl64 (15 / 100))\<bar> \<le> 2 ^ (1000 + 0)"
    using itf(2) by simp
  from add_terms_ok[OF this, of "[(freeze_authority_risk factors, fl64 (8 / 100)),
             (liquidity_risk factors, fl64 (15 / 100)),
             (holder_concentration_risk factors, fl64 (12 / 100)),
             (contract_age_risk factors, fl64 (8 / 100)),
             (verification_risk factors, fl64 (7 / 100)),
             (scam_pattern_risk factors, fl64 (12 / 100)),
             (volume_risk factors, fl64 (10 / 100)),
             (volatility_risk factors, fl64 (8 / 100)),
             (price_manipulation_risk factors, fl64 (5 / 100))]"]
  show ?thesis using assms itf(1)
    by (simp add: weighted_score_def float_weighted_sum_def sub_scores_def weight_le_1)
qed

section \<open>Risk model: overall score and rating\<close>

text \<open>The float weighted sum against the exact weighted sum.\<close>

lemma weighted_term_error:
  assumes "0 \<le> n" "n \<le> 1000000" "0 \<le> c" "c \<le> 1"
  shows "\<bar>fmul (float_of_int n) (fl64 c) - of_int n * c\<bar> \<le> 1 / 2 ^ 32"
    and "0 \<le> fmul (float_of_int n) (fl64 c)"
    and "\<bar>of_int n * c\<bar> \<le> 2 ^ 20"
proof -
  let ?w = "fl64 c"
  let ?x = "of_int n * ?w"
  have "\<bar>n\<bar> < 2 ^ 53" using assms(1,2) by simp
  then have fi: "float_of_int n = of_int n" unfolding float_of_int_def by (rule fl64_of_int)
  have n0: "(0::rat) \<le> of_int n" using assms(1) by simp
  have "(of_int n :: rat) \<le> of_int 1000000" using assms(2) by (simp only: of_int_le_iff)
  then have n1: "(of_int n :: rat) \<le> 2 ^ 20" by simp
  have w0: "0 \<le> ?w" using assms(3) by (rule fl64_nonneg)
  have w1: "?w \<le> 1" using weight_le_1[OF assms(3,4)] by simp
  have "\<bar>c\<bar> \<le> 1" using assms(3,4) by simp
  from fl64_error_le[OF this] have ew: "\<bar>?w - c\<bar> \<le> 1 / 2 ^ 53" .
  have x0: "0 \<le> ?x" using n0 w0 by simp
  have "?x \<le> 2 ^ 20 * 1" using n0 n1 w0 w1 by (intro mult_mono) simp_all
  then have "\<bar>?x\<bar> \<le> 2 ^ 20" using x0 by simp
  from fl64_error_le[OF this] have ex: "\<bar>fl64 ?x - ?x\<bar> \<le> 2 ^ 20 / 2 ^ 53" .
  have "\<bar>?x - of_int n * c\<bar> = of_int n * \<bar>?w - c\<bar>"
    using n0 by (simp add: right_diff_distrib[symmetric] abs_mult)
  also have "\<dots> \<le> 2 ^ 20 * (1 / 2 ^ 53)" using n0 n1 ew by (intro mult_mono) simp_all
  finally have ec: "\<bar>?x - of_int n * c\<bar> \<le> 2 ^ 20 / 2 ^ 53" by simp
  have "\<bar>fl64 ?x - of_int n * c\<bar> \<le> 2 ^ 20 / 2 ^ 53 + 2 ^ 20 / 2 ^ 53"
    using ex ec by linarith
  also have "\<dots> = (1::rat) / 2 ^ 32" by simp
  finally show "\<bar>fmul (float_of_int n) (fl64 c) - of_int n * c\<bar> \<le> 1 / 2 ^ 32"
    by (simp add: fmul_def fi)
  show "0 \<le> fmul (float_of_int n) (fl64 c)"
    unfolding fmul_def fi using x0 by (rule fl64_nonneg)
  have "of_int n * c \<le> 2 ^ 20 * 1" using n0 n1 assms(3,4) by (intro mult_mono) simp_all
  moreover have "0 \<le> of_int n * c" using n0 assms(3) by simp
  ultimately show "\<bar>of_int n * c\<bar> \<le> 2 ^ 20" by simp
qed

lemma foldl_fadd_error:
  assumes "list_all2 (\<lambda>p y. abs (p - y) \<le> d \<and> abs y \<le> B) ps ys"
    and "\<bar>acc - x\<bar> \<le> e"
    and "\<bar>x\<bar> + of_nat (length ps) * B + e + of_nat (length ps) * (d + r) \<le> M"
    and "0 \<le> d" "0 \<le> B" "0 \<le> M" "r = M / 2 ^ 53"
  shows "\<bar>foldl fadd acc ps - (x + sum_list ys)\<bar> \<le> e + of_nat (length ps) * (d + r)"
  using assms(1-3)
proof (induction ps ys arbitrary: acc x e rule: list_all2_induct)
  case Nil
  then show ?case by simp
next
  case (Cons p ps y ys)
  let ?n = "of_nat (length ps) :: rat"
  have r0: "0 \<le> r" using assms(6,7) by simp
  have n0: "0 \<le> ?n * B" "0 \<le> ?n * (d + r)" using assms(4,5) r0 by simp_all
  have py: "\<bar>p - y\<bar> \<le> d" "\<bar>y\<bar> \<le> B" using Cons.hyps(1) by simp_all
  have bound: "\<bar>x\<bar> + (?n + 1) * B + e + (?n + 1) * (d + r) \<le> M"
    using Cons.prems(2) by (simp add: algebra_simps)
  have bound': "\<bar>x\<bar> + B + ?n * B + e + (d + r) + ?n * (d + r) \<le> M"
    using bound by (simp add: algebra_simps)
  have d1: "\<bar>(acc + p) - (x + y)\<bar> \<le> e + d" using Cons.prems(1) py(1) by linarith
  have "\<bar>acc + p\<bar> \<le> \<bar>x\<bar> + B + e + d" using d1 py(2) by linarith
  also have "\<dots> \<le> M" using bound' n0 r0 by linarith
  finally have "\<bar>acc + p\<bar> \<le> M" .
  from fl64_error_le[OF this] have d2: "\<bar>fadd acc p - (acc + p)\<bar> \<le> r"
    by (simp add: fadd_def assms(7))
  have e': "\<bar>fadd acc p - (x + y)\<bar> \<le> e + d + r" using d1 d2 by linarith
  have "\<bar>x + y\<bar> \<le> \<bar>x\<bar> + B" using py(2) by linarith
  then have b2: "\<bar>x + y\<bar> + ?n * B + (e + d + r) + ?n * (d + r) \<le> M"
    using bound' by linarith
  have "\<bar>foldl fadd (fadd acc p) ps - (x + y + sum_list ys)\<bar> \<le> (e + d + r) + ?n * (d + r)"
    by (rule Cons.IH[OF e' b2])
  then show ?case by (simp add: algebra_simps)
qed

lemma foldl_fadd_nonneg:
  assumes "0 \<le> acc" "list_all (\<lambda>p. 0 \<le> p) ps"
  shows "0 \<le> foldl fadd acc ps"
  using assms
proof (induction ps arbitrary: acc)
  case Nil
  then show ?case by simp
next
  case (Cons p ps)
  have "0 \<le> fadd acc p" unfolding fadd_def using Cons.prems by (intro fl64_nonneg) simp
  then show ?case using Cons.prems(2) by (simp add: Cons.IH)
qed

lemma float_weighted_sum_error:
  assumes "list_all (\<lambda>n. 0 \<le> n \<and> n \<le> 1000000) (sub_scores factors)"
  shows "\<bar>float_weighted_sum factors - exact_weighted_sum factors\<bar> < 1 / 200"
    and "0 \<le> float_weighted_sum factors"
proof -
  let ?t = "\<lambda>n c. fmul (float_of_int n) (fl64 c)"
  let ?ps = "[?t (freeze_authority_risk factors) (8 / 100),
              ?t (liquidity_risk factors) (15 / 100),
              ?t (holder_concentration_risk factors) (12 / 100),
              ?t (contract_age_risk factors) (8 / 100),
              ?t (verification_risk factors) (7 / 100),
              ?t (scam_pattern_risk factors) (12 / 100),
              ?t (volume_risk factors) (10 / 100),
              ?t (volatility_risk factors) (8 / 100),
              ?t (price_manipulation_risk factors) (5 / 100)]"
  let ?ys = "[of_int (freeze_authority_risk factors) * (8 / 100),
              of_int (liquidity_risk factors) * (15 / 100),
              of_int (holder_concentration_risk factors) * (12 / 100),
              of_int (contract_age_risk factors) * (8 / 100),
              of_int (verification_risk factors) * (7 / 100),
              of_int (scam_pattern_risk factors) * (12 / 100),
              of_int (volume_risk factors) * (10 / 100),
              of_int (volatility_risk factors) * (8 / 100),
              of_int (price_manipulation_risk factors) * (5 / 100) :: rat]"
  let ?acc = "?t (mint_authority_risk factors) (15 / 100)"
  let ?x = "of_int (mint_authority_risk factors) * (15 / 100) :: rat"
  note b = assms[unfolded sub_scores_def list.pred_inject]
  have ws: "float_weighted_sum factors = foldl fadd ?acc ?ps"
    unfolding float_weighted_sum_def ..
  have ex: "exact_weighted_sum factors = ?x + sum_list ?ys"
    unfolding exact_weighted_sum_def by (simp only: sum_list.Cons sum_list.Nil add_0_right add.assoc)
  have t: "abs (?t n c - of_int n * c) \<le> 1 / 2 ^ 32 \<and> abs (of_int n * c) \<le> 2 ^ 20"
    if "0 \<le> n \<and> n \<le> 1000000" "0 \<le> c" "c \<le> 1" for n c
    using weighted_term_error(1,3)[of n c] that by simp
  have t0: "0 \<le> ?t n c" if "0 \<le> n \<and> n \<le> 1000000" "0 \<le> c" "c \<le> 1" for n c
    using weighted_term_error(2)[of n c] that by simp
  have m: "0 \<le> mint_authority_risk factors \<and> mint_authority_risk factors \<le> 1000000"
    using b by (simp only:)
  have a0: "\<bar>?acc - ?x\<bar> \<le> 1 / 2 ^ 32" and x0: "\<bar>?x\<bar> \<le> 2 ^ 20"
    using t[OF m, of "15 / 100"] by simp_all
  have terms: "list_all2 (\<lambda>p y. abs (p - y) \<le> 1 / 2 ^ 32 \<and> abs y \<le> 2 ^ 20) ?ps ?ys"
    unfolding list_all2_Cons list_all2_Nil2 simp_thms
    by (intro conjI t) (use b in simp_all)
  have len: "length ?ps = 9" by simp
  have "\<bar>?x\<bar> + 9 * 2 ^ 20 + 1 / 2 ^ 32 + 9 * (1 / 2 ^ 32 + 2 ^ 24 / 2 ^ 53) \<le> (2 ^ 24 :: rat)"
    using x0 by simp
  then have bd: "\<bar>?x\<bar> + of_nat (length ?ps) * 2 ^ 20 + 1 / 2 ^ 32
           + of_nat (length ?ps) * (1 / 2 ^ 32 + 1 / 2 ^ 29) \<le> (2 ^ 24 :: rat)"
    unfolding len by simp
  have "\<bar>foldl fadd ?acc ?ps - (?x + sum_list ?ys)\<bar>
          \<le> 1 / 2 ^ 32 + of_nat (length ?ps) * (1 / 2 ^ 32 + 1 / 2 ^ 29)"
    by (rule foldl_fadd_error[OF terms a0 bd]) simp_all
  also have "\<dots> < 1 / 200" unfolding len by simp
  finally show "\<bar>float_weighted_sum factors - exact_weighted_sum factors\<bar> < 1 / 200"
    unfolding ws ex .
  have "0 \<le> ?acc" using t0[OF m, of "15 / 100"] by simp
  moreover have "list_all (\<lambda>p. 0 \<le> p) ?ps"
    unfolding list.pred_inject simp_thms
    by (intro conjI t0) (use b in simp_all)
  ultimately show "0 \<le> float_weighted_sum factors" unfolding ws by (rule foldl_fadd_nonneg)
qed

lemma hundred_exact_weighted_sum:
  "exact_weighted_sum factors =
     of_int (15 * mint_authority_risk factors + 8 * freeze_authority_risk factors
             + 15 * liquidity_risk factors + 12 * holder_concentration_risk factors
             + 8 * contract_age_risk factors + 7 * verification_risk factors
             + 12 * scam_pattern_risk factors + 10 * volume_risk factors
             + 8 * volatility_risk factors + 5 * price_manipulation_risk factors) / 100"
  by (simp add: exact_weighted_sum_def field_simps)

lemma trunc_near_hundredth:
  assumes "0 \<le> ws" "\<bar>ws - of_int k / 100\<bar> < 1 / 200" "0 \<le> k"
  shows "py_trunc ws = py_trunc (of_int k / 100) \<or>
         (of_int k / 100 = (of_int (py_trunc (of_int k / 100)) :: rat) \<and>
          py_trunc ws = py_trunc (of_int k / 100) - 1)"
proof -
  define q where "q = k div 100"
  define m where "m = k mod 100"
  have k: "k = 100 * q + m" and m: "0 \<le> m" "m < 100" by (simp_all add: q_def m_def)
  have e: "(of_int k :: rat) / 100 = of_int q + of_int m / 100" unfolding k by simp
  have "m \<le> 99" using m by simp
  then have "(of_int m :: rat) \<le> of_int 99" by (simp only: of_int_le_iff)
  then have m': "(0::rat) \<le> of_int m" "(of_int m :: rat) \<le> 99" using m by simp_all
  have "\<lfloor>(of_int k :: rat) / 100\<rfloor> = q" unfolding e using m' by (intro floor_unique) simp_all
  moreover have "0 \<le> (of_int k :: rat) / 100" using assms(3) by simp
  ultimately have tq: "py_trunc (of_int k / 100) = q" by (simp add: py_trunc_def)
  have tw: "py_trunc ws = \<lfloor>ws\<rfloor>" using assms(1) by (simp add: py_trunc_def)
  show ?thesis
  proof (cases "m = 0")
    case True
    then have e0: "(of_int k :: rat) / 100 = of_int q" using e by simp
    have w: "of_int q - 1 \<le> ws" "ws < of_int q + 1" using assms(2) unfolding e0 by linarith+
    have "\<lfloor>ws\<rfloor> = q - 1 \<or> \<lfloor>ws\<rfloor> = q"
    proof (cases "ws < of_int q")
      case True
      have "\<lfloor>ws\<rfloor> = q - 1" by (rule floor_unique) (use w True in simp_all)
      then show ?thesis ..
    next
      case False
      have "\<lfloor>ws\<rfloor> = q" by (rule floor_unique) (use w False in simp_all)
      then show ?thesis ..
    qed
    then show ?thesis unfolding tq tw using e0 by auto
  next
    case False
    then have "1 \<le> m" using m by simp
    then have "(1::rat) \<le> of_int m" by simp
    then have "of_int q \<le> ws" "ws < of_int q + 1" using assms(2) m'(2) unfolding e by linarith+
    then have "\<lfloor>ws\<rfloor> = q" by (intro floor_unique)
    then show ?thesis unfolding tq tw by simp
  qed
qed

lemma launched_sub_scores:
  "launched_factors =
     \<lparr> mint_authority_risk = 0, freeze_authority_risk = 0, liquidity_risk = 60,
       holder_concentration_risk = 60, contract_age_risk = 90, verification_risk = 0,
       scam_pattern_risk = 60, volume_risk = 80, volatility_risk = 30,
       price_manipulation_risk = 0 \<rparr>"
  by (simp add: launched_factors_def calculate_risk_scores_def launched_metadata_def
      launched_chart_def get_or_zero_def truthy_str_def fdiv_def fl64_20 Let_def)

lemma bounded_sub_scores:
  assumes "list_all (\<lambda>n::int. 0 \<le> n \<and> n \<le> 1000000) ns"
  shows "list_all (\<lambda>n. \<bar>n\<bar> \<le> 2 ^ 1000) ns"
proof -
  have "(1000000::int) \<le> 2 ^ 1000" by simp
  then have "\<bar>n\<bar> \<le> 2 ^ 1000" if "0 \<le> n \<and> n \<le> 1000000" for n :: int
    using that by linarith
  then show ?thesis using assms by (auto simp add: list_all_iff)
qed

lemma rating_of_score_steps:
  "(rating_of_score s = ''LOW'' \<longleftrightarrow> s \<le> 20) \<and>
   (rating_of_score s = ''MEDIUM'' \<longleftrightarrow> 21 \<le> s \<and> s \<le> 40) \<and>
   (rating_of_score s = ''HIGH'' \<longleftrightarrow> 41 \<le> s \<and> s \<le> 60) \<and>
   (rating_of_score s = ''EXTREME'' \<longleftrightarrow> 61 \<le> s)"
  by (simp add: rating_of_score_def)

lemma calculate_overall_risk_bounded:
  assumes "list_all (\<lambda>n. \<bar>n\<bar> \<le> 2 ^ 1000) (sub_scores factors)"
  shows "calculate_overall_risk factors =
           Inr (py_trunc (float_weighted_sum factors),
                rating_of_score (py_trunc (float_weighted_sum factors)))"
  by (simp add: calculate_overall_risk_def weighted_score_ok[OF assms] rating_of_score_def)

text \<open>
  Claim C1 as stated fails on the code: the score is the truncation of a sum of floats,
  which can fall just below the weighted sum. The snapshot \<open>launched_chart\<close> gives the
  sub-scores 0, 0, 60, 60, 90, 0, 60, 80, 30, 0. Their weighted sum is exactly 41, which
  the step function rates HIGH; the code computes 40.99999999999999 and returns the
  score 40 with the rating MEDIUM.
\<close>

theorem weighted_sum_truncation_counterexample:
  "sub_scores launched_factors = [0, 0, 60, 60, 90, 0, 60, 80, 30, 0] \<and>
   exact_weighted_sum launched_factors = 41 \<and>
   py_trunc (exact_weighted_sum launched_factors) = 41 \<and>
   rating_of_score 41 = ''HIGH'' \<and>
   calculate_overall_risk launched_factors = Inr (40, ''MEDIUM'')"
proof -
  have s: "sub_scores launched_factors = [0, 0, 60, 60, 90, 0, 60, 80, 30, 0]"
    by (simp add: launched_sub_scores sub_scores_def)
  have e: "exact_weighted_sum launched_factors = 41"
    by (simp add: launched_sub_scores exact_weighted_sum_def)
  have h: "list_all (\<lambda>n. \<bar>n\<bar> \<le> 2 ^ 1000) (sub_scores launched_factors)"
    unfolding s by simp
  have t: "py_trunc (float_weighted_sum launched_factors) = 40"
    unfolding launched_sub_scores by code_simp
  have "calculate_overall_risk launched_factors = Inr (40, ''MEDIUM'')"
    unfolding calculate_overall_risk_bounded[OF h] t by (simp add: rating_of_score_def)
  then show ?thesis using s e by (simp add: py_trunc_def rating_of_score_def)
qed

text \<open>
  Claim C1, amended. For every RiskFactors value with sub-scores between 0 and 1000000
  (which includes the range 0 to 100 of the data model) \<open>calculate_overall_risk\<close>
  returns without raising. The score is the integer truncation of the weighted sum of
  the ten sub-scores with the weights .15, .08, .15, .12, .08, .07, .12, .10, .08, .05,
  or, only when that weighted sum is a whole number, possibly one less than it. The
  rating is the step function of the returned score: LOW up to 20, MEDIUM for 21 to 40,
  HIGH for 41 to 60, EXTREME from 61.
\<close>

theorem calculate_overall_risk_near_exact_sum:
  assumes "list_all (\<lambda>n. 0 \<le> n \<and> n \<le> 1000000) (sub_scores factors)"
  shows "\<exists>score rating.
           calculate_overall_risk factors = Inr (score, rating) \<and>
           (score = py_trunc (exact_weighted_sum factors) \<or>
            exact_weighted_sum factors = of_int (py_trunc (exact_weighted_sum factors)) \<and>
            score = py_trunc (exact_weighted_sum factors) - 1) \<and>
           rating = rating_of_score score \<and>
           (rating = ''LOW'' \<longleftrightarrow> score \<le> 20) \<and>
           (rating = ''MEDIUM'' \<longleftrightarrow> 21 \<le> score \<and> score \<le> 40) \<and>
           (rating = ''HIGH'' \<longleftrightarrow> 41 \<le> score \<and> score \<le> 60) \<and>
           (rating = ''EXTREME'' \<longleftrightarrow> 61 \<le> score)"
proof -
  let ?k = "15 * mint_authority_risk factors + 8 * freeze_authority_risk factors
             + 15 * liquidity_risk factors + 12 * holder_concentration_risk factors
             + 8 * contract_age_risk factors + 7 * verification_risk factors
             + 12 * scam_pattern_risk factors + 10 * volume_risk factors
             + 8 * volatility_risk factors + 5 * price_manipulation_risk factors"
  let ?score = "py_trunc (float_weighted_sum factors)"
  note c = calculate_overall_risk_bounded[OF bounded_sub_scores[OF assms]]
  note e = float_weighted_sum_error[OF assms]
  have k: "0 \<le> ?k" using assms by (simp add: sub_scores_def)
  have near: "\<bar>float_weighted_sum factors - of_int ?k / 100\<bar> < 1 / 200"
    using e(1) by (simp only: hundred_exact_weighted_sum)
  from trunc_near_hundredth[OF e(2) near k]
  have "?score = py_trunc (exact_weighted_sum factors) \<or>
        exact_weighted_sum factors = of_int (py_trunc (exact_weighted_sum factors)) \<and>
        ?score = py_trunc (exact_weighted_sum factors) - 1"
    by (simp only: hundred_exact_weighted_sum)
  with c rating_of_score_steps[of ?score] show ?thesis by blast
qed

theorem calculate_overall_risk_near_exact_sum_witness:
  "list_all (\<lambda>n. 0 \<le> n \<and> n \<le> 1000000) (sub_scores example_factors) \<and>
   exact_weighted_sum example_factors = 101 / 10 \<and>
   calculate_overall_risk example_factors = Inr (10, ''LOW'')"
proof -
  have h: "list_all (\<lambda>n. 0 \<le> n \<and> n \<le> 1000000) (sub_scores example_factors)"
    by (simp add: sub_scores_def example_factors_def)
  have e: "exact_weighted_sum example_factors = 101 / 10"
    by (simp add: exact_weighted_sum_def example_factors_def)
  have t: "py_trunc (101 / 10) = 10" by (simp add: py_trunc_def) linarith
  from calculate_overall_risk_near_exact_sum[OF h]
  obtain score rating where r: "calculate_overall_risk example_factors = Inr (score, rating)"
    "score = 10 \<or> (101 / 10 :: rat) = of_int 10 \<and> score = 10 - 1"
    "rating = rating_of_score score"
    unfolding e t by blast
  from r(2) have "score = 10" by simp
  with r(1,3) h e show ?thesis by (simp add: rating_of_score_def)
qed

text \<open>
  The six boundary scores of the rating, and the rating of every returned score.
\<close>

lemma rating_of_score_boundaries:
  "rating_of_score 20 = ''LOW''" "rating_of_score 21 = ''MEDIUM''"
  "rating_of_score 40 = ''MEDIUM''" "rating_of_score 41 = ''HIGH''"
  "rating_of_score 60 = ''HIGH''" "rating_of_score 61 = ''EXTREME''"
  by (simp_all add: rating_of_score_def)

lemma calculate_overall_risk_rating:
  "calculate_overall_risk factors = Inr (score, rating) \<Longrightarrow> rating = rating_of_score score"
  by (auto simp add: calculate_overall_risk_def rating_of_score_def split: sum.splits)

text \<open>
  Another whole weighted sum that the float sum misses: the exact sum is 24, the score 23.
\<close>

lemma float_score_below_exact_sum:
  "calculate_overall_risk nine_flags_factors = Inr (23, ''MEDIUM'') \<and>
   exact_weighted_sum nine_flags_factors = 24"
proof -
  have h: "list_all (\<lambda>n. \<bar>n\<bar> \<le> 2 ^ 1000) (sub_scores nine_flags_factors)"
    by (simp add: sub_scores_def nine_flags_factors_def)
  have t: "py_trunc (float_weighted_sum nine_flags_factors) = 23" by code_simp
  have e: "exact_weighted_sum nine_flags_factors = 24"
    by (simp add: exact_weighted_sum_def nine_flags_factors_def)
  show ?thesis unfolding calculate_overall_risk_bounded[OF h] t using e
    by (simp add: rating_of_score_def)
qed

section \<open>Risk model: missing market data\<close>

text \<open>
  Claim C2 as stated fails: with the all-zero market data of a token without a market,
  the volume risk is the neutral default 50, not its worst value (80 is reached on another
  input), and the volatility risk is 30, its lowest value (90 is reached on another input).
\<close>

theorem zero_liquidity_volume_risk_counterexample:
  "liquidity_usd no_market_chart = 0 \<and>
   volume_risk (calculate_risk_scores example_metadata Map.empty Map.empty [] no_market_chart) = 50 \<and>
   volume_risk (calculate_risk_scores example_metadata Map.empty Map.empty [] wash_chart) = 80 \<and>
   volatility_risk (calculate_risk_scores example_metadata Map.empty Map.empty [] no_market_chart) = 30 \<and>
   volatility_risk (calculate_risk_scores example_metadata Map.empty Map.empty [] wash_chart) = 90"
proof -
  have "fdiv 20000 1000 = 20" by code_simp
  then show ?thesis
    by (simp add: calculate_risk_scores_def no_market_chart_def wash_chart_def Let_def)
qed

text \<open>
  Claim C2, amended. For every snapshot with liquidity USD = 0 the liquidity risk is 100,
  its largest value, and the volume risk is the neutral default 50; when moreover the 24h
  price change is 0 the volatility risk is 30, and when there is no timeframe data the
  price-manipulation risk is 0.
\<close>

theorem zero_liquidity_risks:
  assumes "liquidity_usd chart = 0"
  shows "liquidity_risk (calculate_risk_scores metadata holders age flags chart) = 100 \<and>
         volume_risk (calculate_risk_scores metadata holders age flags chart) = 50 \<and>
         (price_change_24h chart = 0 \<longrightarrow>
            volatility_risk (calculate_risk_scores metadata holders age flags chart) = 30) \<and>
         (timeframes chart = [] \<longrightarrow>
            price_manipulation_risk (calculate_risk_scores metadata holders age flags chart) = 0)"
  using assms by (simp add: calculate_risk_scores_def Let_def)

theorem zero_liquidity_risks_witness:
  "liquidity_usd no_market_chart = 0 \<and>
   liquidity_risk (calculate_risk_scores example_metadata Map.empty Map.empty [] no_market_chart) = 100 \<and>
   volume_risk (calculate_risk_scores example_metadata Map.empty Map.empty [] no_market_chart) = 50 \<and>
   volatility_risk (calculate_risk_scores example_metadata Map.empty Map.empty [] no_market_chart) = 30 \<and>
   price_manipulation_risk (calculate_risk_scores example_metadata Map.empty Map.empty [] no_market_chart) = 0"
proof -
  have h: "liquidity_usd no_market_chart = 0" by (simp add: no_market_chart_def)
  have "price_change_24h no_market_chart = 0" "timeframes no_market_chart = []"
    by (simp_all add: no_market_chart_def)
  with zero_liquidity_risks[OF h, of example_metadata Map.empty Map.empty "[]"] h
  show ?thesis by simp
qed

lemma risk_sub_score_bounds:
  "liquidity_risk (calculate_risk_scores metadata holders age flags chart) \<le> 100"
  "volume_risk (calculate_risk_scores metadata holders age flags chart) \<le> 80"
  by (simp_all add: calculate_risk_scores_def Let_def)

section \<open>Trade setup\<close>

text \<open>
  Claim C7. For every positive current price and every setup type, \<open>calculate_entry_exit\<close>
  returns levels whose first target is that of the setup type and: for a risk score up to
  30 the second and third targets are those of the setup type; for a risk score from 31
  to 40 the third target equals the second; for a risk score above 40 the second target
  is the float product of the first target and 1.02, and the third equals the second.
  An absent risk score counts as 50.
\<close>

theorem calculate_entry_exit_risk_tiers:
  assumes "c_current_price contract = Some price" and "0 < price"
    and "risk = (case c_overall_risk_score contract of None \<Rightarrow> 50 | Some r \<Rightarrow> r)"
  shows "\<exists>lv. calculate_entry_exit contract setup_type = Some lv \<and>
           tp1 lv = tp1 (setup_levels setup_type price) \<and>
           (risk \<le> 30 \<longrightarrow> tp2 lv = tp2 (setup_levels setup_type price) \<and>
                            tp3 lv = tp3 (setup_levels setup_type price)) \<and>
           (31 \<le> risk \<and> risk \<le> 40 \<longrightarrow> tp2 lv = tp2 (setup_levels setup_type price) \<and>
                            tp3 lv = tp2 lv) \<and>
           (40 < risk \<longrightarrow> tp2 lv = fmul (tp1 lv) (fl64 (102 / 100)) \<and> tp3 lv = tp2 lv)"
  using assms by (simp add: calculate_entry_exit_def Let_def)

theorem calculate_entry_exit_risk_tiers_witness:
  "c_current_price risky_contract = Some 1 \<and> (0::rat) < 1 \<and>
   (\<exists>lv. calculate_entry_exit risky_contract ''dip_buy'' = Some lv \<and>
         tp1 lv = fmul 1 (fl64 (103 / 100)) \<and>
         tp2 lv = fmul (tp1 lv) (fl64 (102 / 100)) \<and> tp3 lv = tp2 lv)"
proof -
  have h: "c_current_price risky_contract = Some 1" "(0::rat) < 1"
    "(45::int) = (case c_overall_risk_score risky_contract of None \<Rightarrow> 50 | Some r \<Rightarrow> r)"
    by (simp_all add: risky_contract_def)
  from calculate_entry_exit_risk_tiers[OF h, of "''dip_buy''"] h(1)
  show ?thesis by (auto simp add: setup_levels_def)
qed

text \<open>
  Claim C8. \<open>position_size_by_risk\<close> is non-increasing in the risk score, with the values
  3 up to 30, 2.5 for 31 to 35, 2 for 36 to 40, and 1 above 40.
\<close>

theorem position_size_by_risk_antimono:
  assumes "r1 \<le> r2"
  shows "position_size_by_risk r2 \<le> position_size_by_risk r1 \<and>
         (r1 \<le> 30 \<longrightarrow> position_size_by_risk r1 = 3) \<and>
         (31 \<le> r1 \<and> r1 \<le> 35 \<longrightarrow> position_size_by_risk r1 = 5 / 2) \<and>
         (36 \<le> r1 \<and> r1 \<le> 40 \<longrightarrow> position_size_by_risk r1 = 2) \<and>
         (40 < r1 \<longrightarrow> position_size_by_risk r1 = 1)"
  using assms by (simp add: position_size_by_risk_def)

theorem position_size_by_risk_antimono_witness:
  "(30::int) \<le> 31 \<and> position_size_by_risk 31 \<le> position_size_by_risk 30 \<and>
   position_size_by_risk 30 = 3 \<and> position_size_by_risk 31 = 5 / 2 \<and>
   position_size_by_risk 35 = 5 / 2 \<and> position_size_by_risk 36 = 2 \<and>
   position_size_by_risk 40 = 2 \<and> position_size_by_risk 41 = 1"
proof -
  have h: "(30::int) \<le> 31" by simp
  from position_size_by_risk_antimono[OF h] h show ?thesis
    by (simp add: position_size_by_risk_def)
qed

section \<open>Signal confidence\<close>

lemma generate_signal_conf:
  "fst (snd (generate_signal sm_score mom_score pat_score patterns)) =
     (if fsub (max sm_score (max mom_score pat_score)) (min sm_score (min mom_score pat_score)) < 20
      then 85
      else if fsub (max sm_score (max mom_score pat_score)) (min sm_score (min mom_score pat_score)) < 40
      then 70 else 55)"
  by (simp only: generate_signal_def Let_def fst_conv snd_conv)

text \<open>
  Claim C3 as stated fails at the two boundaries: sub-scores 50, 70, 60 are within 20 of
  each other and the confidence is 70, not 85; sub-scores 30, 70, 50 have spread 40, which
  does not exceed 40, and the confidence is 55, not 70.
\<close>

theorem generate_signal_confidence_counterexample:
  "max 50 (max 70 60) - min 50 (min 70 60) \<le> (20::rat) \<and>
   fst (snd (generate_signal 50 70 60 [])) = 70 \<and>
   \<not> (40::rat) < max 30 (max 70 50) - min 30 (min 70 50) \<and>
   fst (snd (generate_signal 30 70 50 [])) = 55"
proof -
  have e: "fsub 70 50 = 20" "fsub 70 30 = 40"
    by (simp_all add: fsub_def fl64_20 fl64_40)
  have m: "max 50 (max 70 60) = (70::rat)" "min 50 (min 70 60) = (50::rat)"
    "max 30 (max 70 50) = (70::rat)" "min 30 (min 70 50) = (30::rat)" by simp_all
  show ?thesis unfolding generate_signal_conf m e by simp
qed

text \<open>
  Claim C3, amended. The confidence returned by \<open>generate_signal\<close> is 85 if and only if
  the spread of the three sub-scores (the float difference of the largest and the
  smallest) is strictly below 20, 55 if and only if the spread is at least 40, and 70
  otherwise. In particular it is never 85 when the largest and the smallest differ by 20
  or more, and it is 55 whenever they differ by 40 or more.
\<close>

theorem generate_signal_confidence:
  assumes "generate_signal sm_score mom_score pat_score patterns = (sig, conf, combined)"
    and "hi = max sm_score (max mom_score pat_score)"
    and "lo = min sm_score (min mom_score pat_score)"
  shows "(conf = 85 \<longleftrightarrow> fsub hi lo < 20) \<and>
         (conf = 55 \<longleftrightarrow> 40 \<le> fsub hi lo) \<and>
         (conf = 70 \<longleftrightarrow> 20 \<le> fsub hi lo \<and> fsub hi lo < 40) \<and>
         (20 \<le> hi - lo \<longrightarrow> conf \<noteq> 85) \<and>
         (40 \<le> hi - lo \<longrightarrow> conf = 55)"
proof -
  have "conf = fst (snd (generate_signal sm_score mom_score pat_score patterns))"
    by (simp only: assms(1) fst_conv snd_conv)
  hence c: "conf = (if fsub hi lo < 20 then 85 else if fsub hi lo < 40 then 70 else 55)"
    by (simp only: generate_signal_conf assms(2,3))
  have a: "20 \<le> hi - lo \<Longrightarrow> 20 \<le> fsub hi lo" using fsub_ge[of 20 hi lo] by simp
  have b: "40 \<le> hi - lo \<Longrightarrow> 40 \<le> fsub hi lo" using fsub_ge[of 40 hi lo] by simp
  show ?thesis
  proof (cases "fsub hi lo < 20")
    case True
    then show ?thesis using c a b by auto
  next
    case False
    then show ?thesis using c a b by (cases "fsub hi lo < 40") auto
  qed
qed

theorem generate_signal_confidence_witness:
  "fst (snd (generate_signal 50 60 55 [])) = 85 \<and>
   fst (snd (generate_signal 50 70 60 [])) = 70 \<and>
   fst (snd (generate_signal 30 70 50 [])) = 55"
proof -
  have e: "fsub 60 50 = 10" "fsub 70 50 = 20" "fsub 70 30 = 40"
    using fl64_of_int[of 10] fl64_of_int[of 20] fl64_of_int[of 40] by (simp_all add: fsub_def)
  obtain s1 c1 k1 where g1: "generate_signal 50 60 55 [] = (s1, c1, k1)"
    using prod_cases3 by blast
  obtain s2 c2 k2 where g2: "generate_signal 50 70 60 [] = (s2, c2, k2)"
    using prod_cases3 by blast
  obtain s3 c3 k3 where g3: "generate_signal 30 70 50 [] = (s3, c3, k3)"
    using prod_cases3 by blast
  have "c1 = 85" using generate_signal_confidence[OF g1, of 60 50] e by simp
  moreover have "c2 = 70" using generate_signal_confidence[OF g2, of 70 50] e by simp
  moreover have "c3 = 55" using generate_signal_confidence[OF g3, of 70 30] e by simp
  ultimately show ?thesis by (simp only: g1 g2 g3 fst_conv snd_conv simp_thms)
qed

section \<open>Momentum score\<close>

text \<open>
  Claim C4 asks for an adjustment of -15 when the 24h price momentum is below -20 percent.
  The code tests \<open>< -10\<close> before \<open>< -20\<close>, so the -15 branch is never taken: for a
  momentum of -25 percent (oversold, trending down, flat volume) the score is
  50 - 10 + 10 - 10 = 40, where the claim gives 50 - 15 + 10 - 10 = 35.
\<close>

theorem calculate_momentum_score_below_minus_20:
  "price_momentum_24h falling_indicators = - 25 \<and>
   calculate_momentum_score flat_volume falling_indicators = 40"
  by (simp add: calculate_momentum_score_def flat_volume_def falling_indicators_def Let_def
      fadd_def fsub_def fdiv_def fl64_small_ints)

text \<open>Every momentum below -20 scores exactly as a momentum of -15 does.\<close>

lemma calculate_momentum_score_never_subtracts_15:
  assumes "price_momentum_24h indicators < - 20"
  shows "calculate_momentum_score volume indicators =
         calculate_momentum_score volume (indicators \<lparr> price_momentum_24h := - 15 \<rparr>)"
proof -
  have a: "(price_momentum_24h indicators > 20) = False"
    "(price_momentum_24h indicators > 10) = False"
    "(price_momentum_24h indicators < - 10) = True" using assms by simp_all
  have b: "((- 15::rat) > 20) = False" "((- 15::rat) > 10) = False" "((- 15::rat) < - 10) = True"
    by simp_all
  have c: "price_momentum_24h (indicators \<lparr> price_momentum_24h := - 15 \<rparr>) = - 15"
    "rsi_trend (indicators \<lparr> price_momentum_24h := - 15 \<rparr>) = rsi_trend indicators"
    "trend_direction (indicators \<lparr> price_momentum_24h := - 15 \<rparr>) = trend_direction indicators"
    by simp_all
  show ?thesis unfolding calculate_momentum_score_def
    by (simp only: a b c if_True if_False)
qed

section \<open>Holder profile\<close>

lemma holders_loop_eq:
  "holders_loop price (tops, wallets, holdings, whales) hs =
     (tops @ map (holder_profile price) hs,
      wallets @ map address (filter (\<lambda>h. is_smart_money (holder_profile price h)) hs),
      foldl (\<lambda>t h. if is_smart_money (holder_profile price h)
                      then fadd t (raw_percent_held h) else t) holdings hs,
      whales + int (length (filter (\<lambda>h. is_whale (holder_profile price h)) hs)))"
  by (induction hs arbitrary: tops wallets holdings whales) (simp_all add: Let_def)

lemma holder_profile_fields:
  "wallet_address (holder_profile price h) = address h"
  "balance (holder_profile price h) = raw_balance h"
  "percent_held (holder_profile price h) = raw_percent_held h"
  "balance_usd (holder_profile price h) = fmul (raw_balance h) price"
  "is_whale (holder_profile price h) \<longleftrightarrow> 1 \<le> raw_percent_held h"
  "is_smart_money (holder_profile price h) \<longleftrightarrow>
     1 / 2 \<le> raw_percent_held h \<and> 5000 \<le> fmul (raw_balance h) price"
  by (simp_all add: holder_profile_def Let_def)

lemma analyze_holders_nonempty:
  assumes "raw_holders \<noteq> []"
  shows "top_holders (analyze_holders raw_holders price) =
           map (holder_profile price) (take 20 raw_holders)"
    and "smart_money_wallets (analyze_holders raw_holders price) =
           map address (filter (\<lambda>h. is_smart_money (holder_profile price h)) (take 20 raw_holders))"
    and "whale_count (analyze_holders raw_holders price) =
           int (length (filter (\<lambda>h. is_whale (holder_profile price h)) (take 20 raw_holders)))"
    and "smart_money_count (analyze_holders raw_holders price) =
           int (length (filter (\<lambda>h. is_smart_money (holder_profile price h)) (take 20 raw_holders)))"
    and "smart_money_buying (analyze_holders raw_holders price) \<longleftrightarrow>
           2 < length (filter (\<lambda>p. is_smart_money p \<and> 10000 < balance_usd p)
                         (map (holder_profile price) (take 20 raw_holders)))"
  using assms by (simp_all add: analyze_holders_def holders_loop_eq Let_def)

lemma analyze_holders_flow:
  "\<not> smart_money_selling (analyze_holders raw_holders price)"
  "smart_money_net_flow (analyze_holders raw_holders price) =
     (if smart_money_buying (analyze_holders raw_holders price) then 1 else 0)"
  by (simp_all add: analyze_holders_def holders_loop_eq Let_def)

lemma example_profiles:
  "map (holder_profile 2) (take 20 example_holders) =
     [\<lparr> wallet_address = ''A'', balance = 10000, balance_usd = 20000, percent_held = 2,
        is_smart_money = True, is_whale = True, tags = [''whale''] \<rparr>,
      \<lparr> wallet_address = ''B'', balance = 6000, balance_usd = 12000, percent_held = 1,
        is_smart_money = True, is_whale = True, tags = [''whale''] \<rparr>,
      \<lparr> wallet_address = ''C'', balance = 5500, balance_usd = 11000, percent_held = 6 / 10,
        is_smart_money = True, is_whale = False, tags = [] \<rparr>,
      \<lparr> wallet_address = ''D'', balance = 100, balance_usd = 200, percent_held = 4 / 10,
        is_smart_money = False, is_whale = False, tags = [] \<rparr>]"
proof -
  have "fmul 10000 2 = 20000" "fmul 6000 2 = 12000" "fmul 5500 2 = 11000" "fmul 100 2 = 200"
    using fl64_of_int[of 20000] fl64_of_int[of 12000] fl64_of_int[of 11000] fl64_of_int[of 200]
    by (simp_all add: fmul_def)
  then show ?thesis by (simp add: example_holders_def holder_profile_def Let_def)
qed

text \<open>
  Claim C6. For every non-empty holder list and price, \<open>analyze_holders\<close> profiles the
  first 20 holders in order, with the balance in USD the float product of balance and
  price; a profiled holder is a whale if and only if its percent held is at least 1, and
  smart money if and only if its percent held is at least 0.5 and its balance in USD at
  least 5000; the whale and smart-money counts count those holders;
  \<open>smart_money_buying\<close> holds if and only if more than two smart-money holders have a
  balance in USD above 10000; \<open>smart_money_selling\<close> is false; and the net flow is +1
  when buying, -1 when selling, 0 otherwise.
\<close>

theorem analyze_holders_classification:
  assumes "raw_holders \<noteq> []" and "m = analyze_holders raw_holders price_usd"
  shows "length (top_holders m) = min 20 (length raw_holders) \<and>
         (\<forall>i < length (top_holders m).
             wallet_address (top_holders m ! i) = address (raw_holders ! i) \<and>
             percent_held (top_holders m ! i) = raw_percent_held (raw_holders ! i) \<and>
             balance_usd (top_holders m ! i) = fmul (raw_balance (raw_holders ! i)) price_usd) \<and>
         (\<forall>p \<in> set (top_holders m).
             (is_whale p \<longleftrightarrow> 1 \<le> percent_held p) \<and>
             (is_smart_money p \<longleftrightarrow> 1 / 2 \<le> percent_held p \<and> 5000 \<le> balance_usd p)) \<and>
         whale_count m = int (length (filter is_whale (top_holders m))) \<and>
         smart_money_count m = int (length (filter is_smart_money (top_holders m))) \<and>
         (smart_money_buying m \<longleftrightarrow>
            2 < length (filter (\<lambda>p. is_smart_money p \<and> 10000 < balance_usd p) (top_holders m))) \<and>
         \<not> smart_money_selling m \<and>
         smart_money_net_flow m =
           (if smart_money_buying m then 1 else if smart_money_selling m then - 1 else 0)"
proof -
  note nz = analyze_holders_nonempty[OF assms(1), of price_usd]
  have tops: "top_holders m = map (holder_profile price_usd) (take 20 raw_holders)"
    using nz(1) assms(2) by simp
  have 1: "length (top_holders m) = min 20 (length raw_holders)"
    by (simp add: tops min.commute)
  have 2: "\<forall>i < length (top_holders m).
             wallet_address (top_holders m ! i) = address (raw_holders ! i) \<and>
             percent_held (top_holders m ! i) = raw_percent_held (raw_holders ! i) \<and>
             balance_usd (top_holders m ! i) = fmul (raw_balance (raw_holders ! i)) price_usd"
    by (simp add: tops holder_profile_fields)
  have 3: "\<forall>p \<in> set (top_holders m).
             (is_whale p \<longleftrightarrow> 1 \<le> percent_held p) \<and>
             (is_smart_money p \<longleftrightarrow> 1 / 2 \<le> percent_held p \<and> 5000 \<le> balance_usd p)"
    by (auto simp add: tops holder_profile_fields)
  have 4: "whale_count m = int (length (filter is_whale (top_holders m)))"
    unfolding assms(2) nz(1) nz(3) by (simp add: filter_map comp_def)
  have 5: "smart_money_count m = int (length (filter is_smart_money (top_holders m)))"
    unfolding assms(2) nz(1) nz(4) by (simp add: filter_map comp_def)
  have 6: "smart_money_buying m \<longleftrightarrow>
            2 < length (filter (\<lambda>p. is_smart_money p \<and> 10000 < balance_usd p) (top_holders m))"
    unfolding assms(2) nz(1) nz(5) by (rule refl)
  have 7: "\<not> smart_money_selling m" using analyze_holders_flow(1) assms(2) by simp
  have 8: "smart_money_net_flow m =
           (if smart_money_buying m then 1 else if smart_money_selling m then - 1 else 0)"
    using analyze_holders_flow assms(2) by simp
  show ?thesis using 1 2 3 4 5 6 7 8 by blast
qed

theorem analyze_holders_classification_witness:
  "example_holders \<noteq> [] \<and>
   map is_whale (top_holders (analyze_holders example_holders 2)) = [True, True, False, False] \<and>
   map is_smart_money (top_holders (analyze_holders example_holders 2)) = [True, True, True, False] \<and>
   whale_count (analyze_holders example_holders 2) = 2 \<and>
   smart_money_count (analyze_holders example_holders 2) = 3 \<and>
   smart_money_buying (analyze_holders example_holders 2) \<and>
   \<not> smart_money_selling (analyze_holders example_holders 2) \<and>
   smart_money_net_flow (analyze_holders example_holders 2) = 1"
proof -
  have h: "example_holders \<noteq> []" by (simp add: example_holders_def)
  have t: "top_holders (analyze_holders example_holders 2) =
             map (holder_profile 2) (take 20 example_holders)"
    using analyze_holders_nonempty(1)[OF h] .
  from analyze_holders_classification[OF h refl, of 2] h
  show ?thesis unfolding t example_profiles by simp
qed

section \<open>Relative strength index\<close>

lemma gains_losses_length:
  "length (fst (gains_losses cs)) = length cs - 1 \<and> length (snd (gains_losses cs)) = length cs - 1"
proof (induction cs rule: gains_losses.induct)
  case (1 a b rest)
  obtain g l where gl: "gains_losses (b # rest) = (g, l)" by (cases "gains_losses (b # rest)")
  with 1 have "length g = length rest" "length l = length rest" by simp_all
  then show ?case using gl by (simp add: Let_def)
qed simp_all


lemma fsub_nonneg: "a \<le> b \<Longrightarrow> 0 \<le> fsub b a"
  using fl64_mono[of 0 "b - a"] by (simp add: fsub_def fl64_zero)

lemma losses_of_rising:
  "sorted cs \<Longrightarrow> set (snd (gains_losses cs)) \<subseteq> {0}"
proof (induction cs rule: gains_losses.induct)
  case (1 a b rest)
  obtain g l where gl: "gains_losses (b # rest) = (g, l)" by (cases "gains_losses (b # rest)")
  have ab: "a \<le> b" and srt: "sorted (b # rest)" using 1(2) by simp_all
  have c: "0 \<le> fsub b a" using ab by (rule fsub_nonneg)
  have l: "set l \<subseteq> {0}" using 1(1)[OF srt] gl by simp
  show ?case
  proof (cases "0 < fsub b a")
    case True
    then show ?thesis using l gl by (simp add: Let_def)
  next
    case False
    with c have "fsub b a = 0" by simp
    then show ?thesis using l gl by (simp add: Let_def)
  qed
qed simp_all

lemma py_sum_zeros:
  assumes "set xs \<subseteq> {0}"
  shows "py_sum xs = 0"
proof -
  have "set xs \<subseteq> {0} \<Longrightarrow> foldl fadd 0 xs = 0"
    by (induction xs) (simp_all add: fadd_def fl64_zero)
  with assms show ?thesis by (simp add: py_sum_def)
qed

lemma slice_from_neg_subset: "set (slice_from_neg xs period) \<subseteq> set xs"
  by (simp add: slice_from_neg_def set_drop_subset)


lemma trailing_loss_of_rising:
  assumes "sorted (map candle_close candles)" "period \<noteq> 0"
  shows "trailing_average (snd (gains_losses (map candle_close candles))) period = Inr 0"
proof -
  let ?ls = "snd (gains_losses (map candle_close candles))"
  have "set (slice_from_neg ?ls period) \<subseteq> set ?ls" by (rule slice_from_neg_subset)
  also have "\<dots> \<subseteq> {0}" using assms(1) by (rule losses_of_rising)
  finally have "py_sum (slice_from_neg ?ls period) = 0" by (rule py_sum_zeros)
  then have "fdiv (py_sum (slice_from_neg ?ls period)) (float_of_int period) = 0"
    by (simp add: fdiv_def fl64_zero)
  then show ?thesis using assms(2) by (simp add: trailing_average_def)
qed

text \<open>
  Claim C10. \<open>calculate_rsi\<close> returns \<open>None\<close> when fewer than \<open>period + 1\<close> candles are
  supplied, and for every candle list with at least \<open>period + 1\<close> candles whose
  trailing average loss over the period is zero it returns the sentinel 100, without
  dividing by that average. (By \<open>trailing_loss_of_rising\<close> the average loss is zero
  whenever the closes never fall.)
\<close>

theorem calculate_rsi_guards:
  "(int (length candles) < period + 1 \<longrightarrow> calculate_rsi candles period = Inr None) \<and>
   (period + 1 \<le> int (length candles) \<and>
    trailing_average (snd (gains_losses (map candle_close candles))) period = Inr 0 \<longrightarrow>
      calculate_rsi candles period = Inr (Some 100))"
proof (intro conjI impI)
  assume "int (length candles) < period + 1"
  then show "calculate_rsi candles period = Inr None" by (simp add: calculate_rsi_def)
next
  assume a: "period + 1 \<le> int (length candles) \<and>
    trailing_average (snd (gains_losses (map candle_close candles))) period = Inr 0"
  obtain gains losses where gl: "gains_losses (map candle_close candles) = (gains, losses)"
    by (cases "gains_losses (map candle_close candles)")
  have len: "length gains = length candles - 1"
    using gains_losses_length[of "map candle_close candles"] gl by simp
  have n: "\<not> int (length candles) < period + 1" using a by simp
  have l: "\<not> int (length gains) < period" using a len by linarith
  have lo: "trailing_average losses period = Inr 0" using a gl by simp
  have p: "period \<noteq> 0"
  proof
    assume "period = 0"
    then have "trailing_average losses period = Inl ZeroDivisionError"
      by (simp add: trailing_average_def)
    with lo show False by simp
  qed
  have g: "trailing_average gains period =
             Inr (fdiv (py_sum (slice_from_neg gains period)) (float_of_int period))"
    using p by (simp add: trailing_average_def)
  show "calculate_rsi candles period = Inr (Some 100)"
    unfolding calculate_rsi_def gl by (simp only: n l g lo if_False if_True prod.case sum.case simp_thms)
qed

theorem calculate_rsi_guards_witness:
  "(2::int) + 1 \<le> int (length rising_candles) \<and>
   trailing_average (snd (gains_losses (map candle_close rising_candles))) 2 = Inr 0 \<and>
   calculate_rsi rising_candles 2 = Inr (Some 100) \<and>
   int (length (tl rising_candles)) < 2 + 1 \<and>
   calculate_rsi (tl rising_candles) 2 = Inr None"
proof -
  have s: "sorted (map candle_close rising_candles)"
    by (simp add: rising_candles_def candle_at_def)
  have t: "trailing_average (snd (gains_losses (map candle_close rising_candles))) 2 = Inr 0"
    using trailing_loss_of_rising[OF s, of 2] by simp
  have n: "(2::int) + 1 \<le> int (length rising_candles)"
    by (simp add: rising_candles_def)
  have k: "int (length (tl rising_candles)) < 2 + 1"
    by (simp add: rising_candles_def)
  have a: "calculate_rsi rising_candles 2 = Inr (Some 100)"
    using calculate_rsi_guards[of rising_candles 2] t n by blast
  have b: "calculate_rsi (tl rising_candles) 2 = Inr None"
    using calculate_rsi_guards[of "tl rising_candles" 2] k by blast
  show ?thesis using t n k a b by (intro conjI)
qed

section \<open>Volume pressure\<close>

text \<open>The float operations that occur on the example pairs, each evaluated on its own.\<close>

lemma fl64_volume_facts:
  "fl64 (3 / 5) = 5404319552844595 / 9007199254740992"
  "fl64 (2 / 5) = 3602879701896397 / 9007199254740992"
  "fl64 1 = 1"
  "fl64 50000 = 50000"
  "fl64 (5404319552844595 / 9007199254740992) = 5404319552844595 / 9007199254740992"
  "fl64 (3602879701896397 / 9007199254740992) = 3602879701896397 / 9007199254740992"
  "fl64 31 = 31"
  "fl64 100000 = 100000"
  "fl64 (81064793292668925 / 4503599627370496) = 18"
  "fl64 (167533906138182451 / 9007199254740992) = 2617717283409101 / 140737488355328"
  "fl64 (54043195528445955 / 4503599627370496) = 12"
  "fl64 (111689270758788301 / 9007199254740992) = 6980579422424269 / 562949953421312"
  "fl64 (31 / 2) = 31 / 2"
  "fl64 2 = 2"
  "fl64 (7 / 10) = 3152519739159347 / 4503599627370496"
  "fl64 (17451448556060673 / 562949953421312) = 31"
  "fl64 (2617717283409101 / 4362862139015168) = 1351079888211149 / 2251799813685248"
  "fl64 (33776997205278725 / 562949953421312) = 8444249301319681 / 140737488355328"
  "fl64 (6980579422424269 / 17451448556060672) = 3602879701896397 / 9007199254740992"
  "fl64 (90071992547409925 / 2251799813685248) = 40"
  "fl64 (2814749767106561 / 140737488355328) = 2814749767106561 / 140737488355328"
  "fl64 150000 = 150000"
  "fl64 (15 / 2) = 15 / 2"
  "fl64 (45 / 2) = 45 / 2"
  by code_simp+

lemmas float_ops = fadd_def fsub_def fmul_def fdiv_def py_sum_def

lemma volume_loop_two_up:
  "volume_loop (0, 0, 0, 0, []) [up_pair 1, up_pair 30] =
     (31, 100000, 2617717283409101 / 140737488355328, 6980579422424269 / 562949953421312,
      [1, 30])"
  by (simp add: up_pair_def opt0_def truthy_num_def Let_def float_ops fl64_zero fl64_volume_facts)

lemma volume_loop_thin_market:
  "volume_loop (0, 0, 0, 0, []) thin_market =
     (31, 150000, 2617717283409101 / 140737488355328, 6980579422424269 / 562949953421312,
      [1, 30])"
  by (simp add: thin_market_def idle_falling_pair_def up_pair_def opt0_def truthy_num_def Let_def
      float_ops fl64_zero fl64_volume_facts)

lemma analyze_volume_momentum_fields:
  assumes "data \<noteq> []"
    and "volume_loop (0, 0, 0, 0, []) (take 5 data) = (t, l, b, s, h)"
    and "avg = (if h \<noteq> [] then fdiv (py_sum h) (of_nat (length h)) else t)"
    and "ratio = (if avg > 0 then fdiv t avg else 1)"
    and "bp = (if fadd b s > 0 then fmul (fdiv b (fadd b s)) 100 else 50)"
    and "sp = (if fadd b s > 0 then fmul (fdiv s (fadd b s)) 100 else 50)"
    and "vm = analyze_volume_momentum data"
  shows "buy_pressure vm = bp" and "sell_pressure vm = sp"
    and "net_pressure vm = fsub bp sp"
    and "volume_ratio vm = ratio"
    and "volume_trend vm =
           (if ratio \<ge> 5 / 2 then ''spiking'' else if ratio \<ge> 3 / 2 then ''increasing''
            else if ratio \<le> fl64 (7 / 10) then ''decreasing'' else ''stable'')"
    and "accumulation_score vm =
           (if net_pressure vm > 20 \<and> (volume_trend vm = ''increasing'' \<or> volume_trend vm = ''spiking'')
            then 80
            else if net_pressure vm < - 20 \<and>
                    (volume_trend vm = ''increasing'' \<or> volume_trend vm = ''spiking'')
            then 20 else 50)"
    and "distribution_score vm =
           (if net_pressure vm > 20 \<and> (volume_trend vm = ''increasing'' \<or> volume_trend vm = ''spiking'')
            then 20
            else if net_pressure vm < - 20 \<and>
                    (volume_trend vm = ''increasing'' \<or> volume_trend vm = ''spiking'')
            then 80 else 50)"
  unfolding assms(3-7) analyze_volume_momentum_def
  by (simp_all only: assms(1,2) if_False prod.case Let_def VolumeMomentum.select_convs)

lemma two_up_fields:
  assumes "data \<noteq> []" and
    "volume_loop (0, 0, 0, 0, []) (take 5 data) =
       (31, l, 2617717283409101 / 140737488355328, 6980579422424269 / 562949953421312, [1, 30])"
  shows "buy_pressure (analyze_volume_momentum data) = 8444249301319681 / 140737488355328"
    and "sell_pressure (analyze_volume_momentum data) = 40"
    and "net_pressure (analyze_volume_momentum data) = 2814749767106561 / 140737488355328"
    and "volume_trend (analyze_volume_momentum data) = ''increasing''"
    and "accumulation_score (analyze_volume_momentum data) = 80"
    and "distribution_score (analyze_volume_momentum data) = 20"
proof -
  note f = analyze_volume_momentum_fields[OF assms refl refl refl refl refl]
  show bp: "buy_pressure (analyze_volume_momentum data) = 8444249301319681 / 140737488355328"
    unfolding f(1) by (simp add: float_ops fl64_volume_facts)
  show sp: "sell_pressure (analyze_volume_momentum data) = 40"
    unfolding f(2) by (simp add: float_ops fl64_volume_facts)
  show np: "net_pressure (analyze_volume_momentum data) = 2814749767106561 / 140737488355328"
    unfolding f(3) f(1)[symmetric] f(2)[symmetric] bp sp by (simp add: float_ops fl64_volume_facts)
  show vt: "volume_trend (analyze_volume_momentum data) = ''increasing''"
    unfolding f(5) by (simp add: float_ops fl64_volume_facts)
  show "accumulation_score (analyze_volume_momentum data) = 80"
    unfolding f(6) np vt by simp
  show "distribution_score (analyze_volume_momentum data) = 20"
    unfolding f(7) np vt by simp
qed

lemma accumulation_pattern_emitted:
  assumes "accumulation_score volume > 70" "rsi_trend momentum = ''oversold''"
  shows "''accumulation'' \<in> set (map pattern_type (detect_chart_patterns momentum volume price))"
  using assms by (simp add: detect_chart_patterns_def)

lemma idle_falling_oversold:
  "rsi_trend (analyze_momentum_indicators (idle_falling_pair # rest) price) = ''oversold''"
proof -
  have "fsub 30 (min (fdiv \<bar>- 15\<bar> 2) 25) = 45 / 2"
    by (simp add: fsub_def fdiv_def fl64_volume_facts)
  then show ?thesis
    by (simp add: analyze_momentum_indicators_def idle_falling_pair_def opt0_def Let_def)
qed

text \<open>
  Claim C5 as stated fails on the code. With two rising pairs of 24h volumes 1 and 30 the
  float computation gives a buy pressure of 60.00000000000001, so the two pressures do
  not sum to 100, the net pressure 20.000000000000007 exceeds 20, and with the volume
  trend "increasing" (ratio 2) the accumulation score is 80 and the distribution score
  20. With a first pair that fell 15 percent on no volume the RSI trend is "oversold" and
  the accumulation pattern is emitted.
\<close>

theorem volume_pressure_counterexample:
  "20 < net_pressure (analyze_volume_momentum [up_pair 1, up_pair 30]) \<and>
   buy_pressure (analyze_volume_momentum [up_pair 1, up_pair 30])
     + sell_pressure (analyze_volume_momentum [up_pair 1, up_pair 30]) \<noteq> 100 \<and>
   accumulation_score (analyze_volume_momentum [up_pair 1, up_pair 30]) = 80 \<and>
   distribution_score (analyze_volume_momentum [up_pair 1, up_pair 30]) = 20 \<and>
   ''accumulation'' \<in> set (map pattern_type
      (detect_chart_patterns (analyze_momentum_indicators thin_market 1)
         (analyze_volume_momentum thin_market) 1))"
proof -
  have a: "[up_pair 1, up_pair 30] \<noteq> []" by simp
  have b: "volume_loop (0, 0, 0, 0, []) (take 5 [up_pair 1, up_pair 30]) =
       (31, 100000, 2617717283409101 / 140737488355328, 6980579422424269 / 562949953421312,
        [1, 30])"
    using volume_loop_two_up by simp
  note two = two_up_fields[OF a b]
  have c: "thin_market \<noteq> []" by (simp add: thin_market_def)
  have "take 5 thin_market = thin_market" by (simp add: thin_market_def)
  then have d: "volume_loop (0, 0, 0, 0, []) (take 5 thin_market) =
       (31, 150000, 2617717283409101 / 140737488355328, 6980579422424269 / 562949953421312,
        [1, 30])"
    using volume_loop_thin_market by simp
  note thin = two_up_fields[OF c d]
  have "rsi_trend (analyze_momentum_indicators thin_market 1) = ''oversold''"
    unfolding thin_market_def by (rule idle_falling_oversold)
  then have p: "''accumulation'' \<in> set (map pattern_type
      (detect_chart_patterns (analyze_momentum_indicators thin_market 1)
         (analyze_volume_momentum thin_market) 1))"
    using thin(5) by (intro accumulation_pattern_emitted) simp_all
  show ?thesis unfolding two using p by simp
qed

text \<open>
  The rounding errors of the pressure computation. The buy and sell volume are sums of
  at most five rounded products: each is its exact value up to seven roundings, their
  float sum up to eight, and each pressure up to twenty-five.
\<close>

lemma rel_err_step:
  assumes "rel_err j a a0" "0 \<le> a0" "2 \<le> j" "0 \<le> v" "0 \<le> c"
  shows "rel_err (Suc j) (fadd a (fmul v (fl64 c))) (a0 + v * c)"
proof -
  have vc: "0 \<le> v * c" using assms(4,5) by simp
  have "rel_err (Suc 0) (fl64 c) c" using assms(5) rel_err_refl by (rule rel_err_fl64)
  with assms(4) have "rel_err (Suc 0) (v * fl64 c) (v * c)" by (rule rel_err_mult)
  with vc have "rel_err (Suc (Suc 0)) (fl64 (v * fl64 c)) (v * c)" by (rule rel_err_fl64)
  moreover have "Suc (Suc 0) \<le> j" using assms(3) by simp
  ultimately have "rel_err j (fmul v (fl64 c)) (v * c)"
    unfolding fmul_def using vc by (intro rel_err_mono[of "v * c" "Suc (Suc 0)" j])
  with assms(1) have "rel_err j (a + fmul v (fl64 c)) (a0 + v * c)" by (rule rel_err_add)
  moreover have "0 \<le> a0 + v * c" using assms(2) vc by simp
  ultimately show ?thesis unfolding fadd_def by (intro rel_err_fl64)
qed

lemma volume_loop_rel_err:
  assumes "\<forall>p \<in> set ps. 0 \<le> opt0 (volume_h24 p)"
    and "rel_err j b b0" "rel_err j s s0" "2 \<le> j"
    and "0 \<le> b0" "0 \<le> s0" "2 / 5 * (b0 + s0) \<le> b0" "b0 \<le> 3 / 5 * (b0 + s0)"
    and "volume_loop (t, l, b, s, h) ps = (t', l', b', s', h')"
  shows "\<exists>b1 s1. rel_err (j + length ps) b' b1 \<and> rel_err (j + length ps) s' s1 \<and>
           0 \<le> b1 \<and> 0 \<le> s1 \<and> 2 / 5 * (b1 + s1) \<le> b1 \<and> b1 \<le> 3 / 5 * (b1 + s1)"
  using assms
proof (induction ps arbitrary: t l b s h j b0 s0)
  case Nil
  from Nil.prems(9) have "b' = b" "s' = s" by simp_all
  then show ?case using Nil.prems(2,3,5-8) by (intro exI[of _ b0] exI[of _ s0]) simp
next
  case (Cons p ps)
  let ?v = "opt0 (volume_h24 p)"
  let ?h = "h @ (if truthy_num (volume_h6 p) then [opt0 (volume_h6 p)] else [])
              @ (if truthy_num (volume_h24 p) then [opt0 (volume_h24 p)] else [])"
  have v: "0 \<le> ?v" using Cons.prems(1) by simp
  have rest: "\<forall>p \<in> set ps. 0 \<le> opt0 (volume_h24 p)" using Cons.prems(1) by simp
  have j: "2 \<le> Suc j" using Cons.prems(4) by simp
  have len: "j + length (p # ps) = Suc j + length ps" by simp
  show ?case
  proof (cases "opt0 (priceChange_h24 p) > 0")
    case True
    have step: "volume_loop
        (fadd t ?v, fadd l (opt0 (pair_liquidity_usd p)),
         fadd b (fmul ?v (fl64 (6 / 10))), fadd s (fmul ?v (fl64 (4 / 10))), ?h) ps
        = (t', l', b', s', h')"
      using Cons.prems(9) True by (simp add: Let_def)
    have rb: "rel_err (Suc j) (fadd b (fmul ?v (fl64 (6 / 10)))) (b0 + ?v * (6 / 10))"
      using Cons.prems(2,5,4) v by (rule rel_err_step) simp
    have rs: "rel_err (Suc j) (fadd s (fmul ?v (fl64 (4 / 10)))) (s0 + ?v * (4 / 10))"
      using Cons.prems(3,6,4) v by (rule rel_err_step) simp
    show ?thesis unfolding len
      by (rule Cons.IH[OF rest rb rs j _ _ _ _ step])
        (use Cons.prems(5-8) v in \<open>simp_all add: algebra_simps\<close>)
  next
    case False
    have step: "volume_loop
        (fadd t ?v, fadd l (opt0 (pair_liquidity_usd p)),
         fadd b (fmul ?v (fl64 (4 / 10))), fadd s (fmul ?v (fl64 (6 / 10))), ?h) ps
        = (t', l', b', s', h')"
      using Cons.prems(9) False by (simp add: Let_def)
    have rb: "rel_err (Suc j) (fadd b (fmul ?v (fl64 (4 / 10)))) (b0 + ?v * (4 / 10))"
      using Cons.prems(2,5,4) v by (rule rel_err_step) simp
    have rs: "rel_err (Suc j) (fadd s (fmul ?v (fl64 (6 / 10)))) (s0 + ?v * (6 / 10))"
      using Cons.prems(3,6,4) v by (rule rel_err_step) simp
    show ?thesis unfolding len
      by (rule Cons.IH[OF rest rb rs j _ _ _ _ step])
        (use Cons.prems(5-8) v in \<open>simp_all add: algebra_simps\<close>)
  qed
qed

lemma pressure_rel_err:
  assumes "rel_err 7 b b1" "rel_err 8 tv t1" "0 \<le> b1" "0 < t1"
  shows "rel_err 25 (fmul (fdiv b tv) 100) (100 * (b1 / t1))"
proof -
  have q: "0 \<le> b1 / t1" using assms(3,4) by simp
  have "rel_err (7 + 2 * 8) (b / tv) (b1 / t1)" using assms(3,4,1,2) by (rule rel_err_divide)
  with q have "rel_err (Suc (7 + 2 * 8)) (fl64 (b / tv)) (b1 / t1)" by (rule rel_err_fl64)
  then have "rel_err (Suc (7 + 2 * 8)) (100 * fl64 (b / tv)) (100 * (b1 / t1))"
    by (intro rel_err_mult) simp_all
  moreover have "0 \<le> 100 * (b1 / t1)" using q by simp
  ultimately have "rel_err (Suc (Suc (7 + 2 * 8))) (fl64 (100 * fl64 (b / tv))) (100 * (b1 / t1))"
    by (intro rel_err_fl64)
  then show ?thesis by (simp add: fmul_def fdiv_def mult.commute)
qed

lemma net_pressure_bound:
  assumes "\<bar>bp - pb\<bar> \<le> 1 / (4 * 10 ^ 12)" "\<bar>sp - ps\<bar> \<le> 1 / (4 * 10 ^ 12)"
    and "pb + ps = 100" "40 \<le> pb" "pb \<le> 60"
  shows "\<bar>bp + sp - 100\<bar> \<le> 1 / 10 ^ 12" and "\<bar>fsub bp sp\<bar> \<le> 20 + 1 / 10 ^ 12"
proof -
  have "\<bar>bp + sp - 100\<bar> \<le> 1 / (4 * 10 ^ 12) + 1 / (4 * 10 ^ 12)" using assms(1-3) by linarith
  then show "\<bar>bp + sp - 100\<bar> \<le> 1 / 10 ^ 12" by simp
  have "1 / (4 * 10 ^ 12) + 1 / (4 * 10 ^ 12) = (1::rat) / (2 * 10 ^ 12)" by simp
  then have d: "\<bar>bp - sp\<bar> \<le> 20 + 1 / (2 * 10 ^ 12)" using assms by linarith
  from fl64_error_le[OF this] have "\<bar>fsub bp sp - (bp - sp)\<bar> \<le> (20 + 1 / (2 * 10 ^ 12)) / 2 ^ 53"
    by (simp add: fsub_def)
  with d have "\<bar>fsub bp sp\<bar> \<le> 20 + 1 / (2 * 10 ^ 12) + (20 + 1 / (2 * 10 ^ 12)) / 2 ^ 53"
    by linarith
  also have "\<dots> \<le> 20 + 1 / 10 ^ 12" by simp
  finally show "\<bar>fsub bp sp\<bar> \<le> 20 + 1 / 10 ^ 12" .
qed

lemma pressures_close:
  assumes "\<forall>p \<in> set data. 0 \<le> opt0 (volume_h24 p)"
  shows "\<bar>buy_pressure (analyze_volume_momentum data)
            + sell_pressure (analyze_volume_momentum data) - 100\<bar> \<le> 1 / 10 ^ 12"
    and "\<bar>net_pressure (analyze_volume_momentum data)\<bar> \<le> 20 + 1 / 10 ^ 12"
proof -
  let ?vm = "analyze_volume_momentum data"
  have "\<bar>buy_pressure ?vm + sell_pressure ?vm - 100\<bar> \<le> 1 / 10 ^ 12 \<and>
        \<bar>net_pressure ?vm\<bar> \<le> 20 + 1 / 10 ^ 12"
  proof (cases "data = []")
    case True
    then show ?thesis by (simp add: analyze_volume_momentum_def)
  next
    case False
    obtain t l b s h where loop: "volume_loop (0, 0, 0, 0, []) (take 5 data) = (t, l, b, s, h)"
      using prod_cases5 by blast
    note f = analyze_volume_momentum_fields[OF False loop refl refl refl refl refl]
    have nonneg: "\<forall>p \<in> set (take 5 data). 0 \<le> opt0 (volume_h24 p)"
      using assms by (meson in_set_takeD)
    obtain b1 s1 where r: "rel_err (2 + length (take 5 data)) b b1"
        "rel_err (2 + length (take 5 data)) s s1"
      and e: "0 \<le> b1" "0 \<le> s1" "2 / 5 * (b1 + s1) \<le> b1" "b1 \<le> 3 / 5 * (b1 + s1)"
      using volume_loop_rel_err[OF nonneg rel_err_zero rel_err_zero _ _ _ _ _ loop, of 2]
      by auto
    have le: "2 + length (take 5 data) \<le> 7" by simp
    have r7: "rel_err 7 b b1" "rel_err 7 s s1"
      by (rule rel_err_mono[OF e(1) le r(1)], rule rel_err_mono[OF e(2) le r(2)])
    let ?t = "b1 + s1"
    have "rel_err 7 (b + s) ?t" using r7 by (rule rel_err_add)
    then have "rel_err (Suc 7) (fadd b s) ?t" unfolding fadd_def using e(1,2) by (intro rel_err_fl64) simp_all
    then have r8: "rel_err 8 (fadd b s) ?t" by simp
    show ?thesis
    proof (cases "?t = 0")
      case True
      then have "b1 = 0" "s1 = 0" using e(1,2) by linarith+
      then have "b = 0" "s = 0" using r7 by (auto dest: rel_err_zeroD)
      then have z: "fadd b s = 0" by (simp add: fadd_def fl64_zero)
      show ?thesis unfolding f(3) f(1) f(2) z by (simp add: fsub_def fl64_zero)
    next
      case False
      then have t: "0 < ?t" using e(1,2) by linarith
      then have tv: "fadd b s > 0" using r8 by (rule rel_err_pos)
      have bp: "rel_err 25 (fmul (fdiv b (fadd b s)) 100) (100 * (b1 / ?t))"
        using r7(1) r8 e(1) t by (rule pressure_rel_err)
      have sp: "rel_err 25 (fmul (fdiv s (fadd b s)) 100) (100 * (s1 / ?t))"
        using r7(2) r8 e(2) t by (rule pressure_rel_err)
      have q: "2 / 5 \<le> b1 / ?t" "b1 / ?t \<le> 3 / 5" using e(3,4) t by (simp_all add: field_simps)
      have "b1 / ?t + s1 / ?t = 1" using t by (simp add: add_divide_distrib[symmetric])
      then have su: "100 * (b1 / ?t) + 100 * (s1 / ?t) = 100" by (simp add: distrib_left[symmetric])
      have pb: "40 \<le> 100 * (b1 / ?t)" "100 * (b1 / ?t) \<le> 60" using q by simp_all
      have ps: "0 \<le> 100 * (s1 / ?t)" "100 * (s1 / ?t) \<le> 60" using su pb by linarith+
      have eb: "\<bar>fmul (fdiv b (fadd b s)) 100 - 100 * (b1 / ?t)\<bar> \<le> 1 / (4 * 10 ^ 12)"
        using bp pb by (intro rel_err_25_abs) simp_all
      have es: "\<bar>fmul (fdiv s (fadd b s)) 100 - 100 * (s1 / ?t)\<bar> \<le> 1 / (4 * 10 ^ 12)"
        using sp ps by (intro rel_err_25_abs) simp_all
      note n = net_pressure_bound[OF eb es su pb]
      show ?thesis unfolding f(3) f(1) f(2) using tv n by simp
    qed
  qed
  then show "\<bar>buy_pressure ?vm + sell_pressure ?vm - 100\<bar> \<le> 1 / 10 ^ 12"
    and "\<bar>net_pressure ?vm\<bar> \<le> 20 + 1 / 10 ^ 12" by simp_all
qed

lemma accumulation_distribution_scores:
  "accumulation_score (analyze_volume_momentum data) = 50 \<and>
     distribution_score (analyze_volume_momentum data) = 50 \<or>
   accumulation_score (analyze_volume_momentum data) = 80 \<and>
     distribution_score (analyze_volume_momentum data) = 20 \<and>
     20 < net_pressure (analyze_volume_momentum data) \<or>
   accumulation_score (analyze_volume_momentum data) = 20 \<and>
     distribution_score (analyze_volume_momentum data) = 80 \<and>
     net_pressure (analyze_volume_momentum data) < - 20"
proof (cases "data = []")
  case True
  then show ?thesis by (simp add: analyze_volume_momentum_def)
next
  case False
  obtain t l b s h where loop: "volume_loop (0, 0, 0, 0, []) (take 5 data) = (t, l, b, s, h)"
    using prod_cases5 by blast
  note f = analyze_volume_momentum_fields[OF False loop refl refl refl refl refl]
  show ?thesis unfolding f(6) f(7) by (simp split: if_splits)
qed

lemma accumulation_needs_score:
  assumes "''accumulation'' \<in> set (map pattern_type (detect_chart_patterns momentum volume price))"
  shows "accumulation_score volume > 70"
  using assms by (auto simp add: detect_chart_patterns_def split: if_splits)

lemma distribution_needs_score:
  assumes "''distribution'' \<in> set (map pattern_type (detect_chart_patterns momentum volume price))"
  shows "distribution_score volume > 70"
  using assms by (auto simp add: detect_chart_patterns_def split: if_splits)

text \<open>
  Claim C5, amended. For every list of pairs whose 24h volumes are zero or lie between
  \<open>1 / 2 ^ 1000\<close> and \<open>2 ^ 1000\<close>, the buy and the sell pressure computed by
  \<open>analyze_volume_momentum\<close> sum to 100 up to \<open>1 / 10 ^ 12\<close>, and the net pressure lies
  between \<open>- 20 - 1 / 10 ^ 12\<close> and \<open>20 + 1 / 10 ^ 12\<close>. The accumulation and
  distribution scores are 50 and 50, or 80 and 20 with a net pressure above 20, or 20 and
  80 with a net pressure below -20; and the accumulation pattern is emitted only with a
  net pressure above 20, the distribution pattern only with a net pressure below -20:
  that is, only when rounding has carried the net pressure past the bound.

  The bounds on the volumes keep every product, sum and quotient of the computation a
  normal binary64 number, where \<open>fl64\<close> is the rounding of the machine. (Outside them the
  code behaves otherwise: a single rising pair with the volume \<open>5e-324\<close> has the buy
  volume \<open>5e-324\<close> and the sell volume 0, hence a net pressure of 100.)
\<close>

theorem analyze_volume_momentum_pressure:
  assumes "\<forall>p \<in> set data. opt0 (volume_h24 p) = 0 \<or>
             1 / 2 ^ 1000 \<le> opt0 (volume_h24 p) \<and> opt0 (volume_h24 p) \<le> 2 ^ 1000"
    and "vm = analyze_volume_momentum data"
  shows "\<bar>buy_pressure vm + sell_pressure vm - 100\<bar> \<le> 1 / 10 ^ 12 \<and>
         \<bar>net_pressure vm\<bar> \<le> 20 + 1 / 10 ^ 12 \<and>
         (accumulation_score vm = 50 \<and> distribution_score vm = 50 \<or>
          accumulation_score vm = 80 \<and> distribution_score vm = 20 \<and> 20 < net_pressure vm \<or>
          accumulation_score vm = 20 \<and> distribution_score vm = 80 \<and> net_pressure vm < - 20) \<and>
         (''accumulation'' \<in> set (map pattern_type (detect_chart_patterns momentum vm price))
            \<longrightarrow> 20 < net_pressure vm) \<and>
         (''distribution'' \<in> set (map pattern_type (detect_chart_patterns momentum vm price))
            \<longrightarrow> net_pressure vm < - 20)"
proof -
  have "(0::rat) \<le> 1 / 2 ^ 1000" by simp
  then have "\<forall>p \<in> set data. 0 \<le> opt0 (volume_h24 p)" using assms(1) by fastforce
  note p = pressures_close[OF this, folded assms(2)]
  note a = accumulation_distribution_scores[of data, folded assms(2)]
  have acc: "20 < net_pressure vm"
    if "''accumulation'' \<in> set (map pattern_type (detect_chart_patterns momentum vm price))"
    using accumulation_needs_score[OF that] a by auto
  have dis: "net_pressure vm < - 20"
    if "''distribution'' \<in> set (map pattern_type (detect_chart_patterns momentum vm price))"
    using distribution_needs_score[OF that] a by auto
  from p a acc dis show ?thesis by blast
qed

theorem analyze_volume_momentum_pressure_witness:
  "1 / 2 ^ 1000 \<le> opt0 (volume_h24 (up_pair 1)) \<and> opt0 (volume_h24 (up_pair 1)) \<le> 2 ^ 1000 \<and>
   1 / 2 ^ 1000 \<le> opt0 (volume_h24 (up_pair 30)) \<and> opt0 (volume_h24 (up_pair 30)) \<le> 2 ^ 1000 \<and>
   buy_pressure (analyze_volume_momentum [up_pair 1, up_pair 30])
     = 8444249301319681 / 140737488355328 \<and>
   sell_pressure (analyze_volume_momentum [up_pair 1, up_pair 30]) = 40 \<and>
   \<bar>buy_pressure (analyze_volume_momentum [up_pair 1, up_pair 30])
      + sell_pressure (analyze_volume_momentum [up_pair 1, up_pair 30]) - 100\<bar> \<le> 1 / 10 ^ 12 \<and>
   \<bar>net_pressure (analyze_volume_momentum [up_pair 1, up_pair 30])\<bar> \<le> 20 + 1 / 10 ^ 12"
proof -
  have v: "1 / 2 ^ 1000 \<le> opt0 (volume_h24 (up_pair 1))" "opt0 (volume_h24 (up_pair 1)) \<le> 2 ^ 1000"
    "1 / 2 ^ 1000 \<le> opt0 (volume_h24 (up_pair 30))" "opt0 (volume_h24 (up_pair 30)) \<le> 2 ^ 1000"
    by (simp_all add: up_pair_def opt0_def)
  then have h: "\<forall>p \<in> set [up_pair 1, up_pair 30]. opt0 (volume_h24 p) = 0 \<or>
             1 / 2 ^ 1000 \<le> opt0 (volume_h24 p) \<and> opt0 (volume_h24 p) \<le> 2 ^ 1000"
    by simp
  have a: "[up_pair 1, up_pair 30] \<noteq> []" by simp
  have b: "volume_loop (0, 0, 0, 0, []) (take 5 [up_pair 1, up_pair 30]) =
       (31, 100000, 2617717283409101 / 140737488355328, 6980579422424269 / 562949953421312,
        [1, 30])"
    using volume_loop_two_up by simp
  note two = two_up_fields[OF a b]
  from analyze_volume_momentum_pressure[OF h refl] v two(1,2) show ?thesis by blast
qed

end
